theory Spec2Isabelle
  imports Main
begin

section \<open>The document session manager of pdfsmarteditor\<close>

text \<open>
  This theory embeds \<^verbatim>\<open>api/storage.py\<close> (the \<^verbatim>\<open>SessionStore\<close> over the sqlite table
  \<^verbatim>\<open>sessions\<close>), \<^verbatim>\<open>pdfsmarteditor/core/document_manager.py\<close> (the \<^verbatim>\<open>DocumentManager\<close>)
  and \<^verbatim>\<open>api/deps.py\<close> (the session cache and its lifecycle functions).

  The Python code works on four pieces of mutable state: the file system, the sqlite
  table, the module-level dictionary \<^verbatim>\<open>sessions\<close> and the heap of \<^verbatim>\<open>DocumentManager\<close>
  objects. They are the fields of the record \<open>world\<close>; every function takes the world and
  returns the new one. A Python exception is a value \<open>Inl e\<close> of the result.

  Paths are POSIX paths, and a path names one regular file at most. The statements on the
  table do not raise; removing and renaming a file raise only for a missing file; writing
  the content of a file (\<^verbatim>\<open>shutil.copy\<close>, \<^verbatim>\<open>Document.save\<close>) may fail for reasons outside
  the program. PyMuPDF (\<^verbatim>\<open>fitz\<close>) is not part of the repository: what \<^verbatim>\<open>fitz.open\<close> makes of
  given bytes under a given file name is a parameter of the world.
\<close>

subsection \<open>Data\<close>

type_synonym path = string

text \<open>
  A \<^verbatim>\<open>datetime\<close>, counted in microseconds from \<^verbatim>\<open>datetime.min\<close>; a \<^verbatim>\<open>timedelta\<close> is a number
  of microseconds.
\<close>

type_synonym timestamp = int

text \<open>The identity of a \<^verbatim>\<open>DocumentManager\<close> object (and of the document it holds).\<close>

type_synonym handle = nat

text \<open>
  What a file holds: the bytes that \<^verbatim>\<open>Document.save\<close> writes for a document with the given
  pages, or any other bytes.
\<close>

datatype file_data = PdfFile "string list" | RawFile string

datatype error =
    HTTPException nat
  | PDFLoadError
  | PDFSaveError
  | InvalidOperationError
  | FileNotFoundError
  | SameFileError
  | OSError
  | TypeError
  | OverflowError

type_synonym 'a result = "error + 'a"

text \<open>The dataclass \<^verbatim>\<open>SessionRecord\<close> of \<^verbatim>\<open>api/storage.py\<close>: one row of the table.\<close>

record SessionRecord =
  session_id :: string
  filename :: string
  storage_path :: path
  created_at :: timestamp
  last_modified :: timestamp

text \<open>
  The helper objects \<^verbatim>\<open>Editor(doc)\<close>, \<^verbatim>\<open>PageManipulator(doc)\<close> and \<^verbatim>\<open>MetadataEditor(doc)\<close>,
  each bound to the document of the manager it was built from.
\<close>

datatype helper = Editor handle | PageManipulator handle | MetadataEditor handle

text \<open>
  The dictionary built by \<^verbatim>\<open>build_session_data\<close>; the keys \<^verbatim>\<open>id\<close>, \<^verbatim>\<open>filename\<close>,
  \<^verbatim>\<open>storage_path\<close>, \<^verbatim>\<open>created_at\<close> and \<^verbatim>\<open>last_modified\<close> carry the prefix \<open>sd_\<close> here, so
  that they do not clash with the fields of the dataclass.
\<close>

record session_data =
  sd_id :: string
  sd_filename :: string
  sd_storage_path :: path
  document_manager :: handle
  sd_created_at :: timestamp
  sd_last_modified :: timestamp
  page_count :: nat
  editor :: "helper option"
  page_manipulator :: "helper option"
  metadata_editor :: "helper option"

text \<open>The effects a call has carried out, in the order in which they happened.\<close>

datatype event =
    FileCopied path path
  | FileRemoved path
  | FileReplaced path path
  | DocOpened handle path
  | DocSaved handle path
  | DocClosed handle
  | RowSaved string
  | RowDeleted string
  | RowUpdated string timestamp

record world =
  files :: "path \<rightharpoonup> file_data"
  rows :: "SessionRecord list"
  sessions :: "string \<rightharpoonup> session_data"
  documents :: "handle \<rightharpoonup> string list"
  next_handle :: handle
  trace :: "event list"
  fitz_parse :: "path \<Rightarrow> file_data \<Rightarrow> string list option"

text \<open>
  \<open>files\<close> is the file system (regular files by their path), \<open>rows\<close> the rows of the table
  \<^verbatim>\<open>sessions\<close> in insertion order, \<open>sessions\<close> the dictionary of \<^verbatim>\<open>api/deps.py\<close>, and
  \<open>documents h\<close> the pages of the document that manager \<open>h\<close> holds (\<open>None\<close> when its
  \<^verbatim>\<open>document\<close> attribute is \<^verbatim>\<open>None\<close>). \<open>trace\<close> is a ghost field: the log of effects.
  \<open>fitz_parse\<close> is the installed PyMuPDF: \<open>fitz_parse w p d\<close> is the list of pages of the
  document that \<^verbatim>\<open>fitz.open\<close> returns for a file named \<open>p\<close> with the bytes \<open>d\<close>, or \<open>None\<close> when
  \<^verbatim>\<open>fitz.open\<close> raises; it may depend on the name, since PyMuPDF chooses the format by the
  extension. No function changes this field.

  What a call reads from outside the program is the record \<open>env\<close>: the configuration
  (\<^verbatim>\<open>STORAGE_DIR\<close>, \<^verbatim>\<open>SESSION_TTL_HOURS\<close>), the value that \<^verbatim>\<open>uuid.uuid4()\<close> draws, the clock,
  and whether writing a file's content at a path goes through. A write that fails raises
  \<^verbatim>\<open>OSError\<close>; it leaves the path as it was (\<open>WriteFailed None\<close>) or leaves a partial file
  there (\<open>WriteFailed (Some junk)\<close>).
\<close>

datatype write_outcome = Written | WriteFailed "file_data option"

record env =
  STORAGE_DIR :: path
  SESSION_TTL_HOURS :: int
  uuid4 :: nat
  now :: timestamp
  write_outcome :: "path \<Rightarrow> write_outcome"

subsection \<open>Paths and session ids\<close>

text \<open>
  \<^verbatim>\<open>os.path.basename\<close> of \<^verbatim>\<open>posixpath\<close>: what follows the last \<^verbatim>\<open>/\<close>.
\<close>

definition os_path_basename :: "path \<Rightarrow> string" where
  "os_path_basename p = rev (takeWhile (\<lambda>c. c \<noteq> CHR ''/'') (rev p))"

definition sanitize_filename :: "string \<Rightarrow> string" where
  "sanitize_filename name = os_path_basename name"

text \<open>
  \<^verbatim>\<open>str(uuid)\<close>: the 128-bit value as 32 lower-case hexadecimal digits, hyphenated
  8-4-4-4-12.
\<close>

definition hex_char :: "nat \<Rightarrow> char" where
  "hex_char d = ''0123456789abcdef'' ! (d mod 16)"

fun hex_digits :: "nat \<Rightarrow> nat \<Rightarrow> string" where
  "hex_digits 0 n = []"
| "hex_digits (Suc k) n = hex_digits k (n div 16) @ [hex_char n]"

definition str_uuid :: "nat \<Rightarrow> string" where
  "str_uuid n =
     (let h = hex_digits 32 n
      in take 8 h @ ''-'' @ take 4 (drop 8 h) @ ''-'' @ take 4 (drop 12 h) @ ''-'' @
         take 4 (drop 16 h) @ ''-'' @ drop 20 h)"

text \<open>
  \<^verbatim>\<open>str(STORAGE_DIR / name)\<close> for a \<open>name\<close> that is one path component.
\<close>

definition path_join :: "path \<Rightarrow> string \<Rightarrow> path" where
  "path_join d name = d @ ''/'' @ name"

subsection \<open>The file system\<close>

definition os_path_exists :: "path \<Rightarrow> world \<Rightarrow> bool" where
  "os_path_exists p w = (files w p \<noteq> None)"

definition os_remove :: "path \<Rightarrow> world \<Rightarrow> unit result \<times> world" where
  "os_remove p w =
     (if files w p = None then (Inl FileNotFoundError, w)
      else (Inr (), w\<lparr>files := (files w)(p := None), trace := trace w @ [FileRemoved p]\<rparr>))"

definition os_replace :: "path \<Rightarrow> path \<Rightarrow> world \<Rightarrow> unit result \<times> world" where
  "os_replace src dst w =
     (case files w src of
        None \<Rightarrow> (Inl FileNotFoundError, w)
      | Some d \<Rightarrow>
          (Inr (), w\<lparr>files := ((files w)(src := None))(dst \<mapsto> d),
                      trace := trace w @ [FileReplaced src dst]\<rparr>))"

text \<open>
  Writing \<open>d\<close> at \<open>p\<close>: the environment decides whether the write goes through.
\<close>

definition write_file :: "env \<Rightarrow> path \<Rightarrow> file_data \<Rightarrow> world \<Rightarrow> bool \<times> world" where
  "write_file e p d w =
     (case write_outcome e p of
        Written \<Rightarrow> (True, w\<lparr>files := (files w)(p \<mapsto> d)\<rparr>)
      | WriteFailed None \<Rightarrow> (False, w)
      | WriteFailed (Some junk) \<Rightarrow> (False, w\<lparr>files := (files w)(p \<mapsto> junk)\<rparr>))"

definition shutil_copy :: "env \<Rightarrow> path \<Rightarrow> path \<Rightarrow> world \<Rightarrow> path result \<times> world" where
  "shutil_copy e src dst w =
     (case files w src of
        None \<Rightarrow> (Inl FileNotFoundError, w)
      | Some d \<Rightarrow>
          if src = dst then (Inl SameFileError, w)
          else (case write_file e dst d w of
                  (True, w1) \<Rightarrow> (Inr dst, w1\<lparr>trace := trace w1 @ [FileCopied src dst]\<rparr>)
                | (False, w1) \<Rightarrow> (Inl OSError, w1)))"

subsection \<open>\<^verbatim>\<open>SessionStore\<close>\<close>

text \<open>
  \<^verbatim>\<open>INSERT OR REPLACE\<close> on the primary key \<^verbatim>\<open>session_id\<close>: a row with the same key is
  deleted and the new row is inserted.
\<close>

definition session_store_save :: "SessionRecord \<Rightarrow> world \<Rightarrow> unit result \<times> world" where
  "session_store_save record w =
     (Inr (), w\<lparr>rows := filter (\<lambda>r. session_id r \<noteq> session_id record) (rows w) @ [record],
                 trace := trace w @ [RowSaved (session_id record)]\<rparr>)"

definition session_store_get :: "string \<Rightarrow> world \<Rightarrow> SessionRecord option" where
  "session_store_get sid w = find (\<lambda>r. session_id r = sid) (rows w)"

definition session_store_delete :: "string \<Rightarrow> world \<Rightarrow> unit result \<times> world" where
  "session_store_delete sid w =
     (Inr (), w\<lparr>rows := filter (\<lambda>r. session_id r \<noteq> sid) (rows w),
                 trace := trace w @ [RowDeleted sid]\<rparr>)"


definition session_store_update_last_modified ::
  "string \<Rightarrow> timestamp \<Rightarrow> world \<Rightarrow> unit result \<times> world" where
  "session_store_update_last_modified sid ts w =
     (Inr (), w\<lparr>rows := map (\<lambda>r. if session_id r = sid then r\<lparr>last_modified := ts\<rparr> else r) (rows w),
                 trace := trace w @ [RowUpdated sid ts]\<rparr>)"

subsection \<open>\<^verbatim>\<open>DocumentManager\<close>\<close>

text \<open>\<^verbatim>\<open>DocumentManager()\<close>: a new object whose \<^verbatim>\<open>document\<close> is \<^verbatim>\<open>None\<close>.\<close>

definition new_document_manager :: "world \<Rightarrow> handle \<times> world" where
  "new_document_manager w =
     (next_handle w,
      w\<lparr>documents := (documents w)(next_handle w := None), next_handle := Suc (next_handle w)\<rparr>)"

text \<open>\<^verbatim>\<open>fitz.open(path)\<close>: the pages of the document, or \<open>None\<close> when it raises.\<close>

definition fitz_open :: "path \<Rightarrow> world \<Rightarrow> string list option" where
  "fitz_open p w = (case files w p of None \<Rightarrow> None | Some d \<Rightarrow> fitz_parse w p d)"

definition load_pdf :: "handle \<Rightarrow> path \<Rightarrow> world \<Rightarrow> unit result \<times> world" where
  "load_pdf h p w =
     (case fitz_open p w of
        Some pages \<Rightarrow>
          (Inr (), w\<lparr>documents := (documents w)(h \<mapsto> pages), trace := trace w @ [DocOpened h p]\<rparr>)
      | None \<Rightarrow> (Inl PDFLoadError, w))"

text \<open>
  \<^verbatim>\<open>save_pdf\<close>: \<^verbatim>\<open>Document.save\<close> refuses a document without pages before it writes
  anything; the \<^verbatim>\<open>except\<close> clause turns every exception of the save into \<^verbatim>\<open>PDFSaveError\<close>.
\<close>

definition save_pdf :: "env \<Rightarrow> handle \<Rightarrow> path \<Rightarrow> world \<Rightarrow> unit result \<times> world" where
  "save_pdf e h p w =
     (case documents w h of
        None \<Rightarrow> (Inl InvalidOperationError, w)
      | Some pages \<Rightarrow>
          if pages = [] then (Inl PDFSaveError, w)
          else (case write_file e p (PdfFile pages) w of
                  (True, w1) \<Rightarrow> (Inr (), w1\<lparr>trace := trace w1 @ [DocSaved h p]\<rparr>)
                | (False, w1) \<Rightarrow> (Inl PDFSaveError, w1)))"

definition get_document :: "handle \<Rightarrow> world \<Rightarrow> string list option" where
  "get_document h w = documents w h"

text \<open>
  \<^verbatim>\<open>close_document\<close>: the test \<^verbatim>\<open>if self.document\<close> is the truth value of the document. A
  \<^verbatim>\<open>fitz.Document\<close> has \<^verbatim>\<open>__len__\<close> (its page count, as \<^verbatim>\<open>len(doc)\<close> in
  \<^verbatim>\<open>build_session_data\<close>), so a document without pages is false: it is neither closed nor
  is the attribute reset.
\<close>

definition close_document :: "handle \<Rightarrow> world \<Rightarrow> world" where
  "close_document h w =
     (case documents w h of
        None \<Rightarrow> w
      | Some pages \<Rightarrow>
          if pages = [] then w
          else w\<lparr>documents := (documents w)(h := None), trace := trace w @ [DocClosed h]\<rparr>)"

subsection \<open>The session cache and its lifecycle (\<^verbatim>\<open>api/deps.py\<close>)\<close>

text \<open>The idiom \<^verbatim>\<open>if os.path.exists(p): os.remove(p)\<close>.\<close>

definition remove_if_exists :: "path \<Rightarrow> world \<Rightarrow> unit result \<times> world" where
  "remove_if_exists p w = (if os_path_exists p w then os_remove p w else (Inr (), w))"

text \<open>
  A \<^verbatim>\<open>finally\<close> block: it runs on the world the guarded block left; its own exception
  replaces the outcome of the guarded block.
\<close>

definition run_finally ::
  "(world \<Rightarrow> unit result \<times> world) \<Rightarrow> 'a result \<times> world \<Rightarrow> 'a result \<times> world" where
  "run_finally cleanup rw =
     (case cleanup (snd rw) of
        (Inl err, w') \<Rightarrow> (Inl err, w')
      | (Inr u, w') \<Rightarrow> (fst rw, w'))"

definition build_session_data ::
  "string \<Rightarrow> string \<Rightarrow> path \<Rightarrow> timestamp \<Rightarrow> timestamp \<Rightarrow> world \<Rightarrow> session_data result \<times> world" where
  "build_session_data sid fname spath created modified w =
     (case new_document_manager w of
        (doc_manager, w1) \<Rightarrow>
          (case load_pdf doc_manager spath w1 of
             (Inl err, w2) \<Rightarrow> (Inl err, w2)
           | (Inr u, w2) \<Rightarrow>
               (case get_document doc_manager w2 of
                  None \<Rightarrow> (Inl TypeError, w2)
                | Some doc \<Rightarrow>
                    (Inr \<lparr>sd_id = sid,
                          sd_filename = fname,
                          sd_storage_path = spath,
                          document_manager = doc_manager,
                          sd_created_at = created,
                          sd_last_modified = modified,
                          page_count = length doc,
                          editor = (if length doc > 0 then Some (Editor doc_manager) else None),
                          page_manipulator =
                            (if length doc > 0 then Some (PageManipulator doc_manager) else None),
                          metadata_editor =
                            (if length doc > 0 then Some (MetadataEditor doc_manager) else None)\<rparr>,
                     w2))))"

definition get_session :: "string \<Rightarrow> world \<Rightarrow> session_data result \<times> world" where
  "get_session sid w =
     (case sessions w sid of
        Some session \<Rightarrow> (Inr session, w)
      | None \<Rightarrow>
          (case session_store_get sid w of
             None \<Rightarrow> (Inl (HTTPException 404), w)
           | Some record \<Rightarrow>
               (case build_session_data (session_id record) (filename record)
                       (storage_path record) (created_at record) (last_modified record) w of
                  (Inl err, w1) \<Rightarrow> (Inl err, w1)
                | (Inr session, w1) \<Rightarrow>
                    (Inr session, w1\<lparr>sessions := (sessions w1)(sid \<mapsto> session)\<rparr>))))"

text \<open>The body of the \<^verbatim>\<open>try\<close> block of \<^verbatim>\<open>create_session\<close>.\<close>

definition create_session_body ::
  "env \<Rightarrow> string \<Rightarrow> string \<Rightarrow> path \<Rightarrow> world \<Rightarrow> string result \<times> world" where
  "create_session_body e sid safe_filename spath w =
     (case build_session_data sid safe_filename spath (now e) (now e) w of
        (Inl err, w1) \<Rightarrow> (Inl err, w1)
      | (Inr session, w1) \<Rightarrow>
          (case session_store_save
                  \<lparr>session_id = sid, filename = safe_filename, storage_path = spath,
                   created_at = now e, last_modified = now e\<rparr> w1 of
             (Inl err, w2) \<Rightarrow> (Inl err, w2)
           | (Inr u, w2) \<Rightarrow> (Inr sid, w2\<lparr>sessions := (sessions w2)(sid \<mapsto> session)\<rparr>)))"

text \<open>
  \<^verbatim>\<open>create_session\<close>: the copy stands before the \<^verbatim>\<open>try\<close>; the \<^verbatim>\<open>except\<close> block removes
  the copy and raises again; the \<^verbatim>\<open>finally\<close> block removes the caller's file.
\<close>

definition create_session :: "env \<Rightarrow> path \<Rightarrow> string \<Rightarrow> world \<Rightarrow> string result \<times> world" where
  "create_session e file_path fname w =
     (let sid = str_uuid (uuid4 e);
          safe_filename = sanitize_filename fname;
          storage_filename = sid @ ''_'' @ safe_filename;
          spath = path_join (STORAGE_DIR e) storage_filename
      in case shutil_copy e file_path spath w of
           (Inl err, w1) \<Rightarrow> (Inl err, w1)
         | (Inr u, w1) \<Rightarrow>
             run_finally (remove_if_exists file_path)
               (case create_session_body e sid safe_filename spath w1 of
                  (Inr r, w2) \<Rightarrow> (Inr r, w2)
                | (Inl err, w2) \<Rightarrow>
                    (case remove_if_exists spath w2 of
                       (Inl err2, w3) \<Rightarrow> (Inl err2, w3)
                     | (Inr u2, w3) \<Rightarrow> (Inl err, w3))))"

definition delete_session :: "string \<Rightarrow> world \<Rightarrow> unit result \<times> world" where
  "delete_session sid w =
     (case sessions w sid of
        Some session \<Rightarrow>
          (let w1 = w\<lparr>sessions := (sessions w)(sid := None)\<rparr>;
               w2 = close_document (document_manager session) w1
           in if sd_storage_path session \<noteq> [] \<and> os_path_exists (sd_storage_path session) w2
              then (case os_remove (sd_storage_path session) w2 of
                      (Inl err, w3) \<Rightarrow> (Inl err, w3)
                    | (Inr u, w3) \<Rightarrow> session_store_delete sid w3)
              else session_store_delete sid w2)
      | None \<Rightarrow> session_store_delete sid w)"






text \<open>
  \<^verbatim>\<open>persist_session_document\<close>. The dictionary \<^verbatim>\<open>session\<close> is the object that the cache
  holds under \<^verbatim>\<open>session_id\<close>, so the two assignments to its keys update the cache.
\<close>

definition persist_session_document :: "env \<Rightarrow> string \<Rightarrow> world \<Rightarrow> session_data result \<times> world" where
  "persist_session_document e sid w =
     (case get_session sid w of
        (Inl err, w1) \<Rightarrow> (Inl err, w1)
      | (Inr session, w1) \<Rightarrow>
          (let spath = sd_storage_path session;
               doc_manager = document_manager session;
               temp_path = spath @ ''.tmp''
           in case (case save_pdf e doc_manager temp_path w1 of
                      (Inl err, w2) \<Rightarrow> (Inl err, w2)
                    | (Inr u, w2) \<Rightarrow> os_replace temp_path spath w2) of
                (Inl err, w3) \<Rightarrow>
                  (case remove_if_exists temp_path w3 of
                     (Inl err2, w4) \<Rightarrow> (Inl err2, w4)
                   | (Inr u, w4) \<Rightarrow> (Inl err, w4))
              | (Inr u, w3) \<Rightarrow>
                  (let session1 = session\<lparr>sd_last_modified := now e\<rparr>;
                       w4 = w3\<lparr>sessions := (sessions w3)(sid \<mapsto> session1)\<rparr>
                   in case get_document doc_manager w4 of
                        None \<Rightarrow> (Inl TypeError, w4)
                      | Some doc \<Rightarrow>
                          (let session2 = session1\<lparr>page_count := length doc\<rparr>;
                               w5 = w4\<lparr>sessions := (sessions w4)(sid \<mapsto> session2)\<rparr>
                           in case session_store_update_last_modified sid (now e) w5 of
                                (Inl err, w6) \<Rightarrow> (Inl err, w6)
                              | (Inr u2, w6) \<Rightarrow> (Inr session2, w6)))))"

section \<open>Example states\<close>

text \<open>Concrete environments and worlds, on which the theorems below are instantiated.\<close>

text \<open>
  A \<^verbatim>\<open>fitz.open\<close> that reads the bytes of a saved document under a name that ends in
  \<^verbatim>\<open>.pdf\<close>, and nothing else.
\<close>

definition example_fitz :: "path \<Rightarrow> file_data \<Rightarrow> string list option" where
  "example_fitz p d =
     (case d of
        PdfFile pages \<Rightarrow> if take 4 (rev p) = rev ''.pdf'' then Some pages else None
      | RawFile bytes \<Rightarrow> None)"

definition example_env :: env where
  "example_env =
     \<lparr>STORAGE_DIR = ''/app/storage'', SESSION_TTL_HOURS = 24, uuid4 = 0,
      now = 63929347200000000, write_outcome = (\<lambda>p. Written)\<rparr>"

text \<open>An upload of three pages waits in the temporary directory; nothing else exists.\<close>

definition upload_world :: world where
  "upload_world =
     \<lparr>files = [''/tmp/upload_a.pdf'' \<mapsto> PdfFile [''page 1'', ''page 2'', ''page 3'']],
      rows = [], sessions = Map.empty, documents = Map.empty, next_handle = 0, trace = [],
      fitz_parse = example_fitz\<rparr>"

text \<open>
  A document without pages: as an upload, and as the content of the cold session \<open>s0\<close>.
\<close>

definition zero_page_world :: world where
  "zero_page_world =
     \<lparr>files = [''/tmp/upload_e.pdf'' \<mapsto> PdfFile [], ''/app/storage/s0_e.pdf'' \<mapsto> PdfFile []],
      rows = [\<lparr>session_id = ''s0'', filename = ''e.pdf'', storage_path = ''/app/storage/s0_e.pdf'',
               created_at = 5, last_modified = 5\<rparr>],
      sessions = Map.empty, documents = Map.empty, next_handle = 0, trace = [],
      fitz_parse = example_fitz\<rparr>"

text \<open>
  The cold session \<open>s1\<close>: its row and its content file exist, the cache is empty (as after
  a restart of the process).
\<close>

definition cold_world :: world where
  "cold_world =
     \<lparr>files = [''/app/storage/s1_a.pdf'' \<mapsto> PdfFile [''page 1'']],
      rows = [\<lparr>session_id = ''s1'', filename = ''a.pdf'', storage_path = ''/app/storage/s1_a.pdf'',
               created_at = 0, last_modified = 0\<rparr>],
      sessions = Map.empty, documents = Map.empty, next_handle = 0, trace = [],
      fitz_parse = example_fitz\<rparr>"

text \<open>
  The warm session \<open>s2\<close>: manager \<open>0\<close> holds its document, to which a page has been added
  since the file was written.
\<close>

definition warm_world :: world where
  "warm_world =
     \<lparr>files = [''/app/storage/s2_b.pdf'' \<mapsto> PdfFile [''page 1'']],
      rows = [\<lparr>session_id = ''s2'', filename = ''b.pdf'', storage_path = ''/app/storage/s2_b.pdf'',
               created_at = 0, last_modified = 0\<rparr>],
      sessions = [''s2'' \<mapsto>
        \<lparr>sd_id = ''s2'', sd_filename = ''b.pdf'', sd_storage_path = ''/app/storage/s2_b.pdf'',
         document_manager = 0, sd_created_at = 0, sd_last_modified = 0, page_count = 1,
         editor = Some (Editor 0), page_manipulator = Some (PageManipulator 0),
         metadata_editor = Some (MetadataEditor 0)\<rparr>],
      documents = [0 \<mapsto> [''page 1'', ''page 2'']], next_handle = 1, trace = [],
      fitz_parse = example_fitz\<rparr>"

text \<open>The cold session \<open>s4\<close>, whose content file is not a document.\<close>

definition broken_world :: world where
  "broken_world =
     \<lparr>files = [''/app/storage/s4_c.pdf'' \<mapsto> RawFile ''not a pdf''],
      rows = [\<lparr>session_id = ''s4'', filename = ''c.pdf'', storage_path = ''/app/storage/s4_c.pdf'',
               created_at = 0, last_modified = 0\<rparr>],
      sessions = Map.empty, documents = Map.empty, next_handle = 0, trace = [],
      fitz_parse = example_fitz\<rparr>"

text \<open>
  An environment in which writing a file's content fails (a full disk, a directory that
  cannot be written, a file name that is too long): every write raises and leaves nothing.
\<close>

definition failing_write_env :: env where
  "failing_write_env =
     \<lparr>STORAGE_DIR = ''/app/storage'', SESSION_TTL_HOURS = 24, uuid4 = 0,
      now = 63929347200000000, write_outcome = (\<lambda>p. WriteFailed None)\<rparr>"



text \<open>An environment in which every write fails and leaves a partial file behind.\<close>

definition partial_write_env :: env where
  "partial_write_env =
     \<lparr>STORAGE_DIR = ''/app/storage'', SESSION_TTL_HOURS = 24, uuid4 = 0,
      now = 63929347200000000, write_outcome = (\<lambda>p. WriteFailed (Some (RawFile ''%PDF-1.7 trunc'')))\<rparr>"

section \<open>Properties\<close>

subsection \<open>File names and session ids\<close>

lemma basename_no_sep: "CHR ''/'' \<notin> set (os_path_basename p)"
  by (auto simp: os_path_basename_def dest: set_takeWhileD)

lemma basename_split:
  "\<exists>d. p = d @ os_path_basename p \<and> (d = [] \<or> last d = CHR ''/'')"
proof -
  let ?P = "\<lambda>c. c \<noteq> CHR ''/''"
  let ?d = "rev (dropWhile ?P (rev p))"
  have "?d @ rev (takeWhile ?P (rev p)) = rev (takeWhile ?P (rev p) @ dropWhile ?P (rev p))"
    by (simp only: rev_append)
  also have "\<dots> = rev (rev p)" by (simp only: takeWhile_dropWhile_id)
  finally have 1: "p = ?d @ os_path_basename p"
    by (simp only: os_path_basename_def rev_rev_ident)
  have 2: "?d = [] \<or> last ?d = CHR ''/''"
  proof (cases "dropWhile ?P (rev p) = []")
    case True then show ?thesis by simp
  next
    case False
    then have "\<not> ?P (hd (dropWhile ?P (rev p)))" by (rule hd_dropWhile)
    with False show ?thesis by (simp add: last_rev)
  qed
  from 1 2 show ?thesis by blast
qed

lemma hex_char_no_sep: "hex_char d \<noteq> CHR ''/''"
proof -
  have "hex_char d \<in> set ''0123456789abcdef''"
    unfolding hex_char_def by (rule nth_mem) simp
  then show ?thesis by auto
qed

lemma hex_digits_no_sep: "CHR ''/'' \<notin> set (hex_digits k n)"
  by (induction k arbitrary: n) (auto simp: hex_char_no_sep hex_char_no_sep [THEN not_sym])

lemma hex_digits_length: "length (hex_digits k n) = k"
  by (induction k arbitrary: n) auto

lemma str_uuid_no_sep: "CHR ''/'' \<notin> set (str_uuid n)"
  unfolding str_uuid_def Let_def
  by (auto dest!: in_set_takeD in_set_dropD simp: hex_digits_no_sep)

lemma str_uuid_length: "length (str_uuid n) = 36"
  by (simp add: str_uuid_def Let_def hex_digits_length)

subsection \<open>What the building blocks return\<close>

lemma fitz_open_new_manager:
  "fitz_open p (w\<lparr>documents := ds, next_handle := n\<rparr>) = fitz_open p w"
  by (simp add: fitz_open_def split: option.splits)

lemma build_session_data_ok:
  assumes "fitz_open spath w = Some pages"
  shows "build_session_data sid fname spath created modified w =
     (Inr \<lparr>sd_id = sid, sd_filename = fname, sd_storage_path = spath,
           document_manager = next_handle w, sd_created_at = created,
           sd_last_modified = modified, page_count = length pages,
           editor = (if length pages > 0 then Some (Editor (next_handle w)) else None),
           page_manipulator = (if length pages > 0 then Some (PageManipulator (next_handle w)) else None),
           metadata_editor = (if length pages > 0 then Some (MetadataEditor (next_handle w)) else None)\<rparr>,
      w\<lparr>documents := (documents w)(next_handle w \<mapsto> pages),
         next_handle := Suc (next_handle w),
         trace := trace w @ [DocOpened (next_handle w) spath]\<rparr>)"
  using assms
  by (simp add: build_session_data_def new_document_manager_def load_pdf_def get_document_def
      fitz_open_new_manager)

lemma build_session_data_fail:
  assumes "fitz_open spath w = None"
  shows "build_session_data sid fname spath created modified w =
     (Inl PDFLoadError,
      w\<lparr>documents := (documents w)(next_handle w := None), next_handle := Suc (next_handle w)\<rparr>)"
  using assms
  by (simp add: build_session_data_def new_document_manager_def load_pdf_def get_document_def
      fitz_open_new_manager)

lemma shutil_copy_ok:
  assumes "files w src = Some d" "src \<noteq> dst" "write_outcome e dst = Written"
  shows "shutil_copy e src dst w =
    (Inr dst, w\<lparr>files := (files w)(dst \<mapsto> d), trace := trace w @ [FileCopied src dst]\<rparr>)"
  using assms by (simp add: shutil_copy_def write_file_def)

lemma shutil_copy_Inr:
  assumes "shutil_copy e src dst w = (Inr r, w1)"
  shows "\<exists>d. files w src = Some d \<and> src \<noteq> dst \<and> write_outcome e dst = Written"
  using assms
  by (auto simp: shutil_copy_def write_file_def
      split: option.splits if_splits write_outcome.splits)

lemma create_session_unfold:
  assumes "sid = str_uuid (uuid4 e)"
    and "spath = path_join (STORAGE_DIR e) (sid @ ''_'' @ sanitize_filename fname)"
  shows "create_session e fp fname w =
     (case shutil_copy e fp spath w of
           (Inl err, w1) \<Rightarrow> (Inl err, w1)
         | (Inr u, w1) \<Rightarrow>
             run_finally (remove_if_exists fp)
               (case create_session_body e sid (sanitize_filename fname) spath w1 of
                  (Inr r, w2) \<Rightarrow> (Inr r, w2)
                | (Inl err, w2) \<Rightarrow>
                    (case remove_if_exists spath w2 of
                       (Inl err2, w3) \<Rightarrow> (Inl err2, w3)
                     | (Inr u2, w3) \<Rightarrow> (Inl err, w3))))"
  unfolding create_session_def Let_def assms ..

lemma create_session_ok:
  assumes sid: "sid = str_uuid (uuid4 e)"
    and spath: "spath = path_join (STORAGE_DIR e) (sid @ ''_'' @ sanitize_filename fname)"
    and f: "files w fp = Some d" and ne: "fp \<noteq> spath"
    and wr: "write_outcome e spath = Written"
    and rd: "fitz_parse w spath d = Some pages"
  shows "create_session e fp fname w =
    (Inr sid,
     w\<lparr>files := ((files w)(spath \<mapsto> d))(fp := None),
        rows := filter (\<lambda>r. session_id r \<noteq> sid) (rows w) @
                 [\<lparr>session_id = sid, filename = sanitize_filename fname, storage_path = spath,
                   created_at = now e, last_modified = now e\<rparr>],
        sessions := (sessions w)(sid \<mapsto>
           \<lparr>sd_id = sid, sd_filename = sanitize_filename fname, sd_storage_path = spath,
            document_manager = next_handle w, sd_created_at = now e,
            sd_last_modified = now e, page_count = length pages,
            editor = (if length pages > 0 then Some (Editor (next_handle w)) else None),
            page_manipulator = (if length pages > 0 then Some (PageManipulator (next_handle w)) else None),
            metadata_editor = (if length pages > 0 then Some (MetadataEditor (next_handle w)) else None)\<rparr>),
        documents := (documents w)(next_handle w \<mapsto> pages),
        next_handle := Suc (next_handle w),
        trace := trace w @ [FileCopied fp spath, DocOpened (next_handle w) spath, RowSaved sid,
                            FileRemoved fp]\<rparr>)"
proof -
  let ?w1 = "w\<lparr>files := (files w)(spath \<mapsto> d), trace := trace w @ [FileCopied fp spath]\<rparr>"
  have c: "shutil_copy e fp spath w = (Inr spath, ?w1)"
    using f ne wr by (rule shutil_copy_ok)
  have "fitz_open spath ?w1 = Some pages"
    using rd by (simp add: fitz_open_def)
  note b = build_session_data_ok [OF this, of sid "sanitize_filename fname" "now e" "now e"]
  show ?thesis
    unfolding create_session_unfold [OF sid spath] c using f ne
    by (simp add: create_session_body_def b session_store_save_def
        run_finally_def remove_if_exists_def os_path_exists_def os_remove_def)
qed

lemma create_session_no_source:
  assumes "files w fp = None"
  shows "create_session e fp fname w = (Inl FileNotFoundError, w)"
  using assms by (simp add: create_session_def Let_def shutil_copy_def)

lemma create_session_same_file:
  assumes "sid = str_uuid (uuid4 e)"
    and "spath = path_join (STORAGE_DIR e) (sid @ ''_'' @ sanitize_filename fname)"
    and "files w fp = Some d" and "fp = spath"
  shows "create_session e fp fname w = (Inl SameFileError, w)"
  unfolding create_session_unfold [OF assms(1,2)] using assms(3,4)
  by (simp add: shutil_copy_def)

lemma create_session_copy_failed:
  assumes "sid = str_uuid (uuid4 e)"
    and "spath = path_join (STORAGE_DIR e) (sid @ ''_'' @ sanitize_filename fname)"
    and "files w fp = Some d" and "fp \<noteq> spath"
    and "write_outcome e spath = WriteFailed leftover"
  shows "create_session e fp fname w =
     (Inl OSError,
      case leftover of None \<Rightarrow> w | Some junk \<Rightarrow> w\<lparr>files := (files w)(spath \<mapsto> junk)\<rparr>)"
  unfolding create_session_unfold [OF assms(1,2)] using assms(3,4,5)
  by (simp add: shutil_copy_def write_file_def split: option.splits)

lemma create_session_load_failed:
  assumes "sid = str_uuid (uuid4 e)"
    and "spath = path_join (STORAGE_DIR e) (sid @ ''_'' @ sanitize_filename fname)"
    and "files w fp = Some d" and "fp \<noteq> spath"
    and "write_outcome e spath = Written"
    and "fitz_parse w spath d = None"
  shows "create_session e fp fname w =
     (Inl PDFLoadError,
      w\<lparr>files := ((files w)(spath := None))(fp := None),
         documents := (documents w)(next_handle w := None),
         next_handle := Suc (next_handle w),
         trace := trace w @ [FileCopied fp spath, FileRemoved spath, FileRemoved fp]\<rparr>)"
proof -
  let ?w1 = "w\<lparr>files := (files w)(spath \<mapsto> d), trace := trace w @ [FileCopied fp spath]\<rparr>"
  have c: "shutil_copy e fp spath w = (Inr spath, ?w1)"
    using assms(3,4,5) by (rule shutil_copy_ok)
  have "fitz_open spath ?w1 = None"
    using assms(6) by (simp add: fitz_open_def)
  then have b: "build_session_data sid (sanitize_filename fname) spath (now e) (now e) ?w1 =
      (Inl PDFLoadError,
       ?w1\<lparr>documents := (documents ?w1)(next_handle ?w1 := None),
           next_handle := Suc (next_handle ?w1)\<rparr>)"
    by (rule build_session_data_fail)
  show ?thesis
    unfolding create_session_unfold [OF assms(1,2)] c using assms(3,4)
    by (simp add: create_session_body_def b run_finally_def remove_if_exists_def
        os_path_exists_def os_remove_def fun_upd_twist)
qed

lemma create_session_Inr:
  fixes e fp fname w
  defines "spath \<equiv> path_join (STORAGE_DIR e) (str_uuid (uuid4 e) @ ''_'' @ sanitize_filename fname)"
  assumes a: "create_session e fp fname w = (Inr r, w')"
  shows "\<exists>d pages. files w fp = Some d \<and> fitz_parse w spath d = Some pages \<and> fp \<noteq> spath \<and>
    write_outcome e spath = Written"
proof -
  have sp: "spath = path_join (STORAGE_DIR e) (str_uuid (uuid4 e) @ ''_'' @ sanitize_filename fname)"
    by (simp add: spath_def)
  show ?thesis
  proof (cases "files w fp")
    case None
    from a create_session_no_source [OF None] show ?thesis by simp
  next
    case (Some d)
    show ?thesis
    proof (cases "fp = spath")
      case True
      from a create_session_same_file [OF refl sp Some True] show ?thesis by simp
    next
      case ne: False
      show ?thesis
      proof (cases "write_outcome e spath")
        case (WriteFailed leftover)
        from a create_session_copy_failed [OF refl sp Some ne WriteFailed]
        show ?thesis by simp
      next
        case Written
        show ?thesis
        proof (cases "fitz_parse w spath d")
          case None
          from a create_session_load_failed [OF refl sp Some ne Written None]
          show ?thesis by simp
        next
          case (Some pages)
          with \<open>files w fp = Some d\<close> ne Written show ?thesis by blast
        qed
      qed
    qed
  qed
qed

lemma create_session_frame:
  assumes a: "create_session e fp fname w = (r, w')"
    and "p \<noteq> fp"
    and "p \<noteq> path_join (STORAGE_DIR e) (str_uuid (uuid4 e) @ ''_'' @ sanitize_filename fname)"
  shows "files w' p = files w p"
proof -
  define sid where "sid = str_uuid (uuid4 e)"
  define spath where "spath = path_join (STORAGE_DIR e) (sid @ ''_'' @ sanitize_filename fname)"
  have p: "p \<noteq> fp" "p \<noteq> spath" using assms(2,3) by (simp_all add: spath_def sid_def)
  show ?thesis
  proof (cases "files w fp")
    case None
    from a create_session_no_source [OF None] show ?thesis by simp
  next
    case (Some d)
    show ?thesis
    proof (cases "fp = spath")
      case True
      from a create_session_same_file [OF sid_def spath_def Some True] show ?thesis by simp
    next
      case ne: False
      show ?thesis
      proof (cases "write_outcome e spath")
        case (WriteFailed leftover)
        from a create_session_copy_failed [OF sid_def spath_def Some ne WriteFailed] p
        show ?thesis by (auto split: option.splits)
      next
        case Written
        show ?thesis
        proof (cases "fitz_parse w spath d")
          case (Some pages)
          from a create_session_ok [OF sid_def spath_def \<open>files w fp = Some d\<close> ne Written Some] p
          show ?thesis by auto
        next
          case None
          from a create_session_load_failed [OF sid_def spath_def Some ne Written None] p
          show ?thesis by auto
        qed
      qed
    qed
  qed
qed

lemma get_session_cached:
  "sessions w sid = Some s \<Longrightarrow> get_session sid w = (Inr s, w)"
  by (simp add: get_session_def)

lemma get_session_missing:
  "sessions w sid = None \<Longrightarrow> session_store_get sid w = None \<Longrightarrow>
   get_session sid w = (Inl (HTTPException 404), w)"
  by (simp add: get_session_def)

lemma get_session_hydrate:
  assumes "sessions w sid = None" "session_store_get sid w = Some r"
    "fitz_open (storage_path r) w = Some pages"
  shows "get_session sid w =
    (Inr \<lparr>sd_id = session_id r, sd_filename = filename r, sd_storage_path = storage_path r,
          document_manager = next_handle w, sd_created_at = created_at r,
          sd_last_modified = last_modified r, page_count = length pages,
          editor = (if length pages > 0 then Some (Editor (next_handle w)) else None),
          page_manipulator = (if length pages > 0 then Some (PageManipulator (next_handle w)) else None),
          metadata_editor = (if length pages > 0 then Some (MetadataEditor (next_handle w)) else None)\<rparr>,
     w\<lparr>sessions := (sessions w)(sid \<mapsto>
          \<lparr>sd_id = session_id r, sd_filename = filename r, sd_storage_path = storage_path r,
          document_manager = next_handle w, sd_created_at = created_at r,
          sd_last_modified = last_modified r, page_count = length pages,
          editor = (if length pages > 0 then Some (Editor (next_handle w)) else None),
          page_manipulator = (if length pages > 0 then Some (PageManipulator (next_handle w)) else None),
          metadata_editor = (if length pages > 0 then Some (MetadataEditor (next_handle w)) else None)\<rparr>),
        documents := (documents w)(next_handle w \<mapsto> pages),
        next_handle := Suc (next_handle w),
        trace := trace w @ [DocOpened (next_handle w) (storage_path r)]\<rparr>)"
  using assms by (simp add: get_session_def build_session_data_ok)

lemma get_session_load_error:
  assumes "sessions w sid = None" "session_store_get sid w = Some r"
    "fitz_open (storage_path r) w = None"
  shows "get_session sid w =
    (Inl PDFLoadError,
     w\<lparr>documents := (documents w)(next_handle w := None), next_handle := Suc (next_handle w)\<rparr>)"
  using assms by (simp add: get_session_def build_session_data_fail)

lemma session_store_get_Some:
  "session_store_get sid w = Some r \<Longrightarrow> r \<in> set (rows w) \<and> session_id r = sid"
  by (auto simp: session_store_get_def find_Some_iff)

lemma session_store_get_None:
  "(session_store_get sid w = None) = (sid \<notin> session_id ` set (rows w))"
  by (auto simp: session_store_get_def find_None_iff)

lemma find_replaced:
  "find (\<lambda>r. f r = k) (filter (\<lambda>r. f r \<noteq> k) xs @ [x]) = (if f x = k then Some x else None)"
  by (induction xs) auto

subsection \<open>The example states\<close>

lemma str_uuid_0: "str_uuid 0 = ''00000000-0000-0000-0000-000000000000''"
  by code_simp

lemma str_uuid_example: "str_uuid (uuid4 example_env) = ''00000000-0000-0000-0000-000000000000''"
  by (simp add: example_env_def str_uuid_0)

lemma sanitize_example: "sanitize_filename ''../../etc/a.pdf'' = ''a.pdf''"
  by (simp add: sanitize_filename_def os_path_basename_def)

lemma create_session_example:
  "create_session example_env ''/tmp/upload_a.pdf'' ''../../etc/a.pdf'' upload_world =
     (Inr ''00000000-0000-0000-0000-000000000000'',
      snd (create_session example_env ''/tmp/upload_a.pdf'' ''../../etc/a.pdf'' upload_world))"
proof -
  have f: "files upload_world ''/tmp/upload_a.pdf'' = Some (PdfFile [''page 1'', ''page 2'', ''page 3''])"
    by (simp add: upload_world_def)
  have ne: "''/tmp/upload_a.pdf'' \<noteq> path_join (STORAGE_DIR example_env)
      (str_uuid (uuid4 example_env) @ ''_'' @ sanitize_filename ''../../etc/a.pdf'')"
    by (simp add: path_join_def example_env_def)
  have wr: "write_outcome example_env (path_join (STORAGE_DIR example_env)
      (str_uuid (uuid4 example_env) @ ''_'' @ sanitize_filename ''../../etc/a.pdf'')) = Written"
    by (simp add: example_env_def)
  have rd: "fitz_parse upload_world (path_join (STORAGE_DIR example_env)
      (str_uuid (uuid4 example_env) @ ''_'' @ sanitize_filename ''../../etc/a.pdf''))
      (PdfFile [''page 1'', ''page 2'', ''page 3'']) = Some [''page 1'', ''page 2'', ''page 3'']"
    by (simp add: upload_world_def example_fitz_def path_join_def sanitize_example)
  show ?thesis
    unfolding create_session_ok [OF refl refl f ne wr rd]
    by (simp add: str_uuid_example)
qed

section \<open>The claims\<close>

subsection \<open>C8: sanitized file names and the storage path\<close>

text \<open>
  Claim C8. For every original file name, \<^verbatim>\<open>create_session\<close> works with the base name: the
  sanitized name holds no path separator and is what follows the last separator of the
  original name. The name of the stored file is the session id, an underscore and the
  sanitized name; it holds no separator either, so the storage path, the content directory
  joined with that name, is a direct child of the content directory. Whatever the outcome
  of the call, it creates no file at any other path; when it succeeds, the file at the
  storage path is the uploaded content, and the row and the cache entry carry that path.
\<close>

theorem create_session_storage_path:
  fixes e file_path fname w
  shows "CHR ''/'' \<notin> set (sanitize_filename fname) \<and>
    (\<exists>d. fname = d @ sanitize_filename fname \<and> (d = [] \<or> last d = CHR ''/'')) \<and>
    CHR ''/'' \<notin> set (str_uuid (uuid4 e) @ ''_'' @ sanitize_filename fname) \<and>
    (\<forall>r w' p. create_session e file_path fname w = (r, w') \<and> files w' p \<noteq> None \<longrightarrow>
       files w p \<noteq> None \<or>
       p = STORAGE_DIR e @ ''/'' @ str_uuid (uuid4 e) @ ''_'' @ sanitize_filename fname) \<and>
    (\<forall>sid w'. create_session e file_path fname w = (Inr sid, w') \<longrightarrow>
       sid = str_uuid (uuid4 e) \<and>
       files w file_path \<noteq> None \<and>
       files w' (STORAGE_DIR e @ ''/'' @ sid @ ''_'' @ sanitize_filename fname) = files w file_path \<and>
       session_store_get sid w' =
         Some \<lparr>session_id = sid, filename = sanitize_filename fname,
               storage_path = STORAGE_DIR e @ ''/'' @ sid @ ''_'' @ sanitize_filename fname,
               created_at = now e, last_modified = now e\<rparr> \<and>
       (\<exists>s. sessions w' sid = Some s \<and> sd_filename s = sanitize_filename fname \<and>
          sd_storage_path s = STORAGE_DIR e @ ''/'' @ sid @ ''_'' @ sanitize_filename fname))"
proof (intro conjI allI impI)
  show "CHR ''/'' \<notin> set (sanitize_filename fname)"
    by (simp add: sanitize_filename_def basename_no_sep)
  show "\<exists>d. fname = d @ sanitize_filename fname \<and> (d = [] \<or> last d = CHR ''/'')"
    unfolding sanitize_filename_def by (rule basename_split)
  show "CHR ''/'' \<notin> set (str_uuid (uuid4 e) @ ''_'' @ sanitize_filename fname)"
    by (simp add: sanitize_filename_def basename_no_sep str_uuid_no_sep)
next
  fix r w' p
  assume a: "create_session e file_path fname w = (r, w') \<and> files w' p \<noteq> None"
  show "files w p \<noteq> None \<or>
       p = STORAGE_DIR e @ ''/'' @ str_uuid (uuid4 e) @ ''_'' @ sanitize_filename fname"
  proof (cases "p = file_path")
    case True
    show ?thesis
    proof (cases "files w file_path")
      case None
      then have "create_session e file_path fname w = (Inl FileNotFoundError, w)"
        by (simp add: create_session_def Let_def shutil_copy_def)
      with a None True show ?thesis by simp
    next
      case (Some d)
      with True show ?thesis by simp
    qed
  next
    case False
    show ?thesis
    proof (cases "p = path_join (STORAGE_DIR e) (str_uuid (uuid4 e) @ ''_'' @ sanitize_filename fname)")
      case True
      then show ?thesis by (simp add: path_join_def)
    next
      case ne: False
      from a have "create_session e file_path fname w = (r, w')" by simp
      from create_session_frame [OF this False ne] a show ?thesis by simp
    qed
  qed
next
  fix sid w'
  assume a: "create_session e file_path fname w = (Inr sid, w')"
  let ?sid = "str_uuid (uuid4 e)"
  let ?spath = "path_join (STORAGE_DIR e) (?sid @ ''_'' @ sanitize_filename fname)"
  from create_session_Inr [OF a] obtain d pages where
    h: "files w file_path = Some d" "file_path \<noteq> ?spath"
       "write_outcome e ?spath = Written" and
    rd: "fitz_parse w ?spath d = Some pages"
    by blast
  note ok = create_session_ok [OF refl refl h rd]
  from a have "fst (create_session e file_path fname w) = Inr sid" by simp
  then have sid: "sid = ?sid" unfolding ok by simp
  from a have w': "w' = snd (create_session e file_path fname w)" by simp
  show "sid = str_uuid (uuid4 e)" by (rule sid)
  show "files w file_path \<noteq> None" using h by simp
  show "files w' (STORAGE_DIR e @ ''/'' @ sid @ ''_'' @ sanitize_filename fname) = files w file_path"
    using h unfolding w' ok sid by (simp add: path_join_def)
  show "session_store_get sid w' =
         Some \<lparr>session_id = sid, filename = sanitize_filename fname,
               storage_path = STORAGE_DIR e @ ''/'' @ sid @ ''_'' @ sanitize_filename fname,
               created_at = now e, last_modified = now e\<rparr>"
    unfolding w' ok sid by (simp add: session_store_get_def path_join_def find_replaced)
  show "\<exists>s. sessions w' sid = Some s \<and> sd_filename s = sanitize_filename fname \<and>
          sd_storage_path s = STORAGE_DIR e @ ''/'' @ sid @ ''_'' @ sanitize_filename fname"
    unfolding w' ok sid by (simp add: path_join_def)
qed

theorem create_session_storage_path_witness:
  "sanitize_filename ''../../etc/a.pdf'' = ''a.pdf'' \<and>
   (\<exists>w'. create_session example_env ''/tmp/upload_a.pdf'' ''../../etc/a.pdf'' upload_world =
       (Inr ''00000000-0000-0000-0000-000000000000'', w') \<and>
     files w' ''/app/storage/00000000-0000-0000-0000-000000000000_a.pdf'' =
       Some (PdfFile [''page 1'', ''page 2'', ''page 3'']) \<and>
     files w' ''/etc/a.pdf'' = None)"
proof -
  let ?w' = "snd (create_session example_env ''/tmp/upload_a.pdf'' ''../../etc/a.pdf'' upload_world)"
  note t = create_session_storage_path
    [of "''../../etc/a.pdf''" example_env "''/tmp/upload_a.pdf''" upload_world]
  from t have a: "\<forall>r w' p. create_session example_env ''/tmp/upload_a.pdf'' ''../../etc/a.pdf'' upload_world = (r, w')
       \<and> files w' p \<noteq> None \<longrightarrow> files upload_world p \<noteq> None \<or>
       p = STORAGE_DIR example_env @ ''/'' @ str_uuid (uuid4 example_env) @ ''_'' @ sanitize_filename ''../../etc/a.pdf''"
    by blast
  from t have b: "\<forall>sid w'. create_session example_env ''/tmp/upload_a.pdf'' ''../../etc/a.pdf'' upload_world = (Inr sid, w') \<longrightarrow>
       files w' (STORAGE_DIR example_env @ ''/'' @ sid @ ''_'' @ sanitize_filename ''../../etc/a.pdf'') =
         files upload_world ''/tmp/upload_a.pdf''"
    by blast
  have 1: "files ?w' ''/app/storage/00000000-0000-0000-0000-000000000000_a.pdf'' =
       Some (PdfFile [''page 1'', ''page 2'', ''page 3''])"
    using b [rule_format, OF create_session_example]
    by (simp add: sanitize_example example_env_def upload_world_def)
  have 2: "files ?w' ''/etc/a.pdf'' = None"
  proof (rule ccontr)
    assume "files ?w' ''/etc/a.pdf'' \<noteq> None"
    with a create_session_example
    have "files upload_world ''/etc/a.pdf'' \<noteq> None \<or>
       ''/etc/a.pdf'' = STORAGE_DIR example_env @ ''/'' @ str_uuid (uuid4 example_env) @ ''_'' @
          sanitize_filename ''../../etc/a.pdf''"
      by blast
    then show False
      by (simp add: upload_world_def example_env_def)
  qed
  from 1 2 create_session_example sanitize_example show ?thesis by blast
qed

subsection \<open>C7: resolving a session right after its creation\<close>

text \<open>
  Claim C7. When \<^verbatim>\<open>create_session\<close> succeeds, \<^verbatim>\<open>get_session\<close> on the returned id, called
  on the world that \<^verbatim>\<open>create_session\<close> left, returns the entry that \<^verbatim>\<open>create_session\<close> put
  into the cache and changes nothing: its page count is the number of pages of the
  uploaded document, and its storage path is the path composed by \<^verbatim>\<open>create_session\<close>,
  which is also the path of the row.
\<close>

theorem resolve_after_create:
  assumes a: "create_session e file_path fname w = (Inr sid, w')"
  shows "\<exists>s r d pages.
      sessions w' sid = Some s \<and>
      session_store_get sid w' = Some r \<and>
      files w file_path = Some d \<and>
      fitz_parse w (path_join (STORAGE_DIR e) (sid @ ''_'' @ sanitize_filename fname)) d =
        Some pages \<and>
      page_count s = length pages \<and>
      sd_storage_path s = path_join (STORAGE_DIR e) (sid @ ''_'' @ sanitize_filename fname) \<and>
      storage_path r = sd_storage_path s \<and>
      get_session sid w' = (Inr s, w')"
proof -
  let ?sid = "str_uuid (uuid4 e)"
  let ?spath = "path_join (STORAGE_DIR e) (?sid @ ''_'' @ sanitize_filename fname)"
  from create_session_Inr [OF a] obtain d pages where
    h: "files w file_path = Some d" "file_path \<noteq> ?spath"
       "write_outcome e ?spath = Written" and
    rd: "fitz_parse w ?spath d = Some pages"
    by blast
  note ok = create_session_ok [OF refl refl h rd]
  from a have "fst (create_session e file_path fname w) = Inr sid" by simp
  then have sid: "sid = ?sid" unfolding ok by simp
  from a have w': "w' = snd (create_session e file_path fname w)" by simp
  obtain s where s: "sessions w' sid = Some s" "page_count s = length pages"
      "sd_storage_path s = ?spath"
    unfolding w' ok sid by simp
  obtain r where r: "session_store_get sid w' = Some r" "storage_path r = ?spath"
    unfolding w' ok sid by (simp add: session_store_get_def find_replaced)
  from s(1) have "get_session sid w' = (Inr s, w')" by (rule get_session_cached)
  with s r h(1) rd sid show ?thesis by auto
qed

theorem resolve_after_create_witness:
  "\<exists>s w'. create_session example_env ''/tmp/upload_a.pdf'' ''../../etc/a.pdf'' upload_world =
       (Inr ''00000000-0000-0000-0000-000000000000'', w') \<and>
     get_session ''00000000-0000-0000-0000-000000000000'' w' = (Inr s, w') \<and>
     page_count s = 3 \<and>
     sd_storage_path s = ''/app/storage/00000000-0000-0000-0000-000000000000_a.pdf''"
proof -
  from resolve_after_create [OF create_session_example]
  obtain s d pages where
    f: "files upload_world ''/tmp/upload_a.pdf'' = Some d" and
    rd: "fitz_parse upload_world (path_join (STORAGE_DIR example_env)
        (''00000000-0000-0000-0000-000000000000'' @ ''_'' @ sanitize_filename ''../../etc/a.pdf'')) d =
        Some pages" and
    p: "page_count s = length pages" and
    sp: "sd_storage_path s = path_join (STORAGE_DIR example_env)
        (''00000000-0000-0000-0000-000000000000'' @ ''_'' @ sanitize_filename ''../../etc/a.pdf'')" and
    g: "get_session ''00000000-0000-0000-0000-000000000000''
        (snd (create_session example_env ''/tmp/upload_a.pdf'' ''../../etc/a.pdf'' upload_world)) =
      (Inr s, snd (create_session example_env ''/tmp/upload_a.pdf'' ''../../etc/a.pdf'' upload_world))"
    by blast
  from f have "d = PdfFile [''page 1'', ''page 2'', ''page 3'']"
    by (simp add: upload_world_def)
  with rd have "pages = [''page 1'', ''page 2'', ''page 3'']"
    by (simp add: upload_world_def example_fitz_def path_join_def sanitize_example example_env_def)
  with p have 1: "page_count s = 3" by simp
  from sp have 2: "sd_storage_path s = ''/app/storage/00000000-0000-0000-0000-000000000000_a.pdf''"
    by (simp add: example_env_def path_join_def sanitize_example)
  from 1 2 g create_session_example show ?thesis by blast
qed

subsection \<open>C5: resolving a session\<close>

text \<open>
  Claim C5. \<^verbatim>\<open>get_session\<close> returns the cached entry when there is one and leaves the world
  as it is. With no cached entry, it raises the HTTP error 404 exactly when the table has
  no row for the id, and then nothing changes. When there is a row and \<^verbatim>\<open>fitz.open\<close> reads
  the file at the row's storage path, it opens that file with a new manager, builds the
  entry from the row and the document, stores it in the cache under the id and returns
  it; files and rows stay as they are. When the file cannot be opened, the error is
  \<^verbatim>\<open>PDFLoadError\<close>, not 404, and the cache is unchanged.
\<close>

theorem get_session_resolves:
  "(\<forall>s. sessions w sid = Some s \<longrightarrow> get_session sid w = (Inr s, w)) \<and>
   (sessions w sid = None \<longrightarrow>
      (fst (get_session sid w) = Inl (HTTPException 404)) = (sid \<notin> session_id ` set (rows w))) \<and>
   (sessions w sid = None \<and> sid \<notin> session_id ` set (rows w) \<longrightarrow>
      get_session sid w = (Inl (HTTPException 404), w)) \<and>
   (\<forall>r pages. sessions w sid = None \<and> session_store_get sid w = Some r \<and>
      fitz_open (storage_path r) w = Some pages \<longrightarrow>
      (\<exists>s w'. get_session sid w = (Inr s, w') \<and>
         s = \<lparr>sd_id = sid, sd_filename = filename r, sd_storage_path = storage_path r,
              document_manager = next_handle w, sd_created_at = created_at r,
              sd_last_modified = last_modified r, page_count = length pages,
              editor = (if length pages > 0 then Some (Editor (next_handle w)) else None),
              page_manipulator =
                (if length pages > 0 then Some (PageManipulator (next_handle w)) else None),
              metadata_editor =
                (if length pages > 0 then Some (MetadataEditor (next_handle w)) else None)\<rparr> \<and>
         sessions w' = (sessions w)(sid \<mapsto> s) \<and>
         documents w' = (documents w)(next_handle w \<mapsto> pages) \<and>
         trace w' = trace w @ [DocOpened (next_handle w) (storage_path r)] \<and>
         files w' = files w \<and> rows w' = rows w)) \<and>
   (\<forall>r. sessions w sid = None \<and> session_store_get sid w = Some r \<and>
      fitz_open (storage_path r) w = None \<longrightarrow>
      fst (get_session sid w) = Inl PDFLoadError \<and>
      sessions (snd (get_session sid w)) = sessions w)"
proof (intro conjI allI impI)
  fix s assume "sessions w sid = Some s"
  then show "get_session sid w = (Inr s, w)" by (rule get_session_cached)
next
  assume c: "sessions w sid = None"
  show "(fst (get_session sid w) = Inl (HTTPException 404)) = (sid \<notin> session_id ` set (rows w))"
  proof (cases "session_store_get sid w")
    case None
    with c get_session_missing [of w sid] show ?thesis
      by (simp add: session_store_get_None)
  next
    case (Some r)
    then have in_rows: "sid \<in> session_id ` set (rows w)"
      using session_store_get_None [of sid w] by simp
    have "fst (get_session sid w) \<noteq> Inl (HTTPException 404)"
    proof (cases "fitz_open (storage_path r) w")
      case (Some pages)
      from get_session_hydrate [OF c \<open>session_store_get sid w = Some r\<close> this]
      show ?thesis by simp
    next
      case None
      from get_session_load_error [OF c \<open>session_store_get sid w = Some r\<close> this]
      show ?thesis by simp
    qed
    with in_rows show ?thesis by simp
  qed
next
  assume "sessions w sid = None \<and> sid \<notin> session_id ` set (rows w)"
  then show "get_session sid w = (Inl (HTTPException 404), w)"
    by (simp add: get_session_missing session_store_get_None)
next
  fix r pages
  assume a: "sessions w sid = None \<and> session_store_get sid w = Some r \<and>
      fitz_open (storage_path r) w = Some pages"
  then have id: "session_id r = sid" using session_store_get_Some by blast
  from a have h: "sessions w sid = None" "session_store_get sid w = Some r"
    "fitz_open (storage_path r) w = Some pages" by simp_all
  show "\<exists>s w'. get_session sid w = (Inr s, w') \<and>
         s = \<lparr>sd_id = sid, sd_filename = filename r, sd_storage_path = storage_path r,
              document_manager = next_handle w, sd_created_at = created_at r,
              sd_last_modified = last_modified r, page_count = length pages,
              editor = (if length pages > 0 then Some (Editor (next_handle w)) else None),
              page_manipulator =
                (if length pages > 0 then Some (PageManipulator (next_handle w)) else None),
              metadata_editor =
                (if length pages > 0 then Some (MetadataEditor (next_handle w)) else None)\<rparr> \<and>
         sessions w' = (sessions w)(sid \<mapsto> s) \<and>
         documents w' = (documents w)(next_handle w \<mapsto> pages) \<and>
         trace w' = trace w @ [DocOpened (next_handle w) (storage_path r)] \<and>
         files w' = files w \<and> rows w' = rows w"
    unfolding get_session_hydrate [OF h] id by simp
next
  fix r
  assume a: "sessions w sid = None \<and> session_store_get sid w = Some r \<and>
      fitz_open (storage_path r) w = None"
  then have h: "sessions w sid = None" "session_store_get sid w = Some r"
    "fitz_open (storage_path r) w = None" by simp_all
  show "fst (get_session sid w) = Inl PDFLoadError"
    unfolding get_session_load_error [OF h] by simp
  show "sessions (snd (get_session sid w)) = sessions w"
    unfolding get_session_load_error [OF h] by simp
qed

theorem get_session_resolves_witness:
  "get_session ''s2'' warm_world = (Inr (the (sessions warm_world ''s2'')), warm_world) \<and>
   get_session ''nobody'' cold_world = (Inl (HTTPException 404), cold_world) \<and>
   (\<exists>s w'. get_session ''s1'' cold_world = (Inr s, w') \<and> page_count s = 1 \<and>
      sd_storage_path s = ''/app/storage/s1_a.pdf'' \<and> sessions w' ''s1'' = Some s \<and>
      documents w' (document_manager s) = Some [''page 1'']) \<and>
   fst (get_session ''s4'' broken_world) = Inl PDFLoadError \<and>
   sessions (snd (get_session ''s4'' broken_world)) ''s4'' = None"
proof -
  have 1: "get_session ''s2'' warm_world = (Inr (the (sessions warm_world ''s2'')), warm_world)"
  proof -
    have "sessions warm_world ''s2'' = Some (the (sessions warm_world ''s2''))"
      by (simp add: warm_world_def)
    with get_session_resolves [of warm_world "''s2''"] show ?thesis by blast
  qed
  have 2: "get_session ''nobody'' cold_world = (Inl (HTTPException 404), cold_world)"
  proof -
    have "sessions cold_world ''nobody'' = None \<and> ''nobody'' \<notin> session_id ` set (rows cold_world)"
      by (simp add: cold_world_def)
    with get_session_resolves [of cold_world "''nobody''"] show ?thesis by blast
  qed
  have 3: "\<exists>s w'. get_session ''s1'' cold_world = (Inr s, w') \<and> page_count s = 1 \<and>
      sd_storage_path s = ''/app/storage/s1_a.pdf'' \<and> sessions w' ''s1'' = Some s \<and>
      documents w' (document_manager s) = Some [''page 1'']"
  proof -
    let ?r = "\<lparr>session_id = ''s1'', filename = ''a.pdf'', storage_path = ''/app/storage/s1_a.pdf'',
               created_at = 0, last_modified = 0\<rparr>"
    have "sessions cold_world ''s1'' = None \<and> session_store_get ''s1'' cold_world = Some ?r \<and>
        fitz_open (storage_path ?r) cold_world = Some [''page 1'']"
      by (simp add: cold_world_def session_store_get_def fitz_open_def example_fitz_def)
    with get_session_resolves [of cold_world "''s1''"]
    obtain s w' where "get_session ''s1'' cold_world = (Inr s, w')"
      "s = \<lparr>sd_id = ''s1'', sd_filename = filename ?r, sd_storage_path = storage_path ?r,
              document_manager = next_handle cold_world, sd_created_at = created_at ?r,
              sd_last_modified = last_modified ?r, page_count = length [''page 1''],
              editor = (if length [''page 1''] > 0 then Some (Editor (next_handle cold_world)) else None),
              page_manipulator =
                (if length [''page 1''] > 0 then Some (PageManipulator (next_handle cold_world)) else None),
              metadata_editor =
                (if length [''page 1''] > 0 then Some (MetadataEditor (next_handle cold_world)) else None)\<rparr>"
      "sessions w' = (sessions cold_world)(''s1'' \<mapsto> s)"
      "documents w' = (documents cold_world)(next_handle cold_world \<mapsto> [''page 1''])"
      by blast
    then show ?thesis by auto
  qed
  have 4: "fst (get_session ''s4'' broken_world) = Inl PDFLoadError \<and>
      sessions (snd (get_session ''s4'' broken_world)) = sessions broken_world"
  proof -
    let ?r = "\<lparr>session_id = ''s4'', filename = ''c.pdf'', storage_path = ''/app/storage/s4_c.pdf'',
               created_at = 0, last_modified = 0\<rparr>"
    have "sessions broken_world ''s4'' = None \<and> session_store_get ''s4'' broken_world = Some ?r \<and>
        fitz_open (storage_path ?r) broken_world = None"
      by (simp add: broken_world_def session_store_get_def fitz_open_def example_fitz_def)
    with get_session_resolves [of broken_world "''s4''"] show ?thesis by blast
  qed
  have 5: "sessions broken_world ''s4'' = None" by (simp add: broken_world_def)
  from 1 2 3 4 5 show ?thesis by simp
qed

subsection \<open>C10: documents without pages\<close>

text \<open>
  Claim C10. An entry built by \<^verbatim>\<open>build_session_data\<close> has its three helpers exactly when
  its page count is positive. For a file that \<^verbatim>\<open>fitz.open\<close> opens with zero pages,
  \<^verbatim>\<open>build_session_data\<close>, \<^verbatim>\<open>create_session\<close> (when the copy goes through) and
  \<^verbatim>\<open>get_session\<close> (for a cold session) succeed and cache an entry whose page count is zero
  and whose \<^verbatim>\<open>editor\<close>, \<^verbatim>\<open>page_manipulator\<close> and \<^verbatim>\<open>metadata_editor\<close> are \<^verbatim>\<open>None\<close>.
\<close>

theorem zero_page_session_has_no_helpers:
  "(\<forall>s w'. build_session_data sid fname spath created modified w = (Inr s, w') \<longrightarrow>
      (editor s = None) = (page_count s = 0) \<and>
      (page_manipulator s = None) = (page_count s = 0) \<and>
      (metadata_editor s = None) = (page_count s = 0)) \<and>
   (fitz_open spath w = Some [] \<longrightarrow>
      (\<exists>s w'. build_session_data sid fname spath created modified w = (Inr s, w') \<and>
         page_count s = 0 \<and> editor s = None \<and> page_manipulator s = None \<and>
         metadata_editor s = None)) \<and>
   (files w file_path = Some d \<and>
    fitz_parse w (path_join (STORAGE_DIR e) (str_uuid (uuid4 e) @ ''_'' @ sanitize_filename fname)) d =
      Some [] \<and>
    file_path \<noteq> path_join (STORAGE_DIR e) (str_uuid (uuid4 e) @ ''_'' @ sanitize_filename fname) \<and>
    write_outcome e (path_join (STORAGE_DIR e) (str_uuid (uuid4 e) @ ''_'' @ sanitize_filename fname))
      = Written \<longrightarrow>
      (\<exists>s w'. create_session e file_path fname w = (Inr (str_uuid (uuid4 e)), w') \<and>
         sessions w' (str_uuid (uuid4 e)) = Some s \<and>
         page_count s = 0 \<and> editor s = None \<and> page_manipulator s = None \<and>
         metadata_editor s = None)) \<and>
   (\<forall>r. sessions w sid = None \<and> session_store_get sid w = Some r \<and>
      fitz_open (storage_path r) w = Some [] \<longrightarrow>
      (\<exists>s w'. get_session sid w = (Inr s, w') \<and> sessions w' sid = Some s \<and>
         page_count s = 0 \<and> editor s = None \<and> page_manipulator s = None \<and>
         metadata_editor s = None))"
proof (intro conjI allI impI)
  fix s w'
  assume a: "build_session_data sid fname spath created modified w = (Inr s, w')"
  have "\<exists>pages. fitz_open spath w = Some pages"
  proof (rule ccontr)
    assume "\<not> ?thesis"
    then have "fitz_open spath w = None" by simp
    from build_session_data_fail [OF this] a show False by simp
  qed
  then obtain pages where "fitz_open spath w = Some pages" by blast
  from build_session_data_ok [OF this, of sid fname created modified] a
  have s: "s = \<lparr>sd_id = sid, sd_filename = fname, sd_storage_path = spath,
           document_manager = next_handle w, sd_created_at = created,
           sd_last_modified = modified, page_count = length pages,
           editor = (if length pages > 0 then Some (Editor (next_handle w)) else None),
           page_manipulator = (if length pages > 0 then Some (PageManipulator (next_handle w)) else None),
           metadata_editor = (if length pages > 0 then Some (MetadataEditor (next_handle w)) else None)\<rparr>"
    by simp
  show "(editor s = None) = (page_count s = 0)" unfolding s by simp
  show "(page_manipulator s = None) = (page_count s = 0)" unfolding s by simp
  show "(metadata_editor s = None) = (page_count s = 0)" unfolding s by simp
next
  assume "fitz_open spath w = Some []"
  from build_session_data_ok [OF this, of sid fname created modified]
  show "\<exists>s w'. build_session_data sid fname spath created modified w = (Inr s, w') \<and>
         page_count s = 0 \<and> editor s = None \<and> page_manipulator s = None \<and>
         metadata_editor s = None"
    by simp
next
  assume "files w file_path = Some d \<and>
    fitz_parse w (path_join (STORAGE_DIR e) (str_uuid (uuid4 e) @ ''_'' @ sanitize_filename fname)) d =
      Some [] \<and>
    file_path \<noteq> path_join (STORAGE_DIR e) (str_uuid (uuid4 e) @ ''_'' @ sanitize_filename fname) \<and>
    write_outcome e (path_join (STORAGE_DIR e) (str_uuid (uuid4 e) @ ''_'' @ sanitize_filename fname))
      = Written"
  then have h: "files w file_path = Some d"
    "file_path \<noteq> path_join (STORAGE_DIR e) (str_uuid (uuid4 e) @ ''_'' @ sanitize_filename fname)"
    "write_outcome e (path_join (STORAGE_DIR e) (str_uuid (uuid4 e) @ ''_'' @ sanitize_filename fname))
      = Written"
    "fitz_parse w (path_join (STORAGE_DIR e) (str_uuid (uuid4 e) @ ''_'' @ sanitize_filename fname)) d =
      Some []"
    by simp_all
  show "\<exists>s w'. create_session e file_path fname w = (Inr (str_uuid (uuid4 e)), w') \<and>
         sessions w' (str_uuid (uuid4 e)) = Some s \<and>
         page_count s = 0 \<and> editor s = None \<and> page_manipulator s = None \<and>
         metadata_editor s = None"
    unfolding create_session_ok [OF refl refl h] by simp
next
  fix r
  assume "sessions w sid = None \<and> session_store_get sid w = Some r \<and>
      fitz_open (storage_path r) w = Some []"
  then have h: "sessions w sid = None" "session_store_get sid w = Some r"
    "fitz_open (storage_path r) w = Some []" by simp_all
  show "\<exists>s w'. get_session sid w = (Inr s, w') \<and> sessions w' sid = Some s \<and>
         page_count s = 0 \<and> editor s = None \<and> page_manipulator s = None \<and>
         metadata_editor s = None"
    unfolding get_session_hydrate [OF h] by simp
qed

theorem zero_page_session_has_no_helpers_witness:
  "(\<exists>s w'. build_session_data ''s0'' ''e.pdf'' ''/app/storage/s0_e.pdf'' 5 5 zero_page_world = (Inr s, w') \<and>
      page_count s = 0 \<and> editor s = None \<and> page_manipulator s = None \<and> metadata_editor s = None) \<and>
   (\<exists>s w'. create_session example_env ''/tmp/upload_e.pdf'' ''e.pdf'' zero_page_world =
        (Inr ''00000000-0000-0000-0000-000000000000'', w') \<and>
      sessions w' ''00000000-0000-0000-0000-000000000000'' = Some s \<and>
      page_count s = 0 \<and> editor s = None \<and> page_manipulator s = None \<and> metadata_editor s = None) \<and>
   (\<exists>s w'. get_session ''s0'' zero_page_world = (Inr s, w') \<and> sessions w' ''s0'' = Some s \<and>
      page_count s = 0 \<and> editor s = None \<and> page_manipulator s = None \<and> metadata_editor s = None)"
proof -
  note t = zero_page_session_has_no_helpers
    [of "''s0''" "''e.pdf''" "''/app/storage/s0_e.pdf''" 5 5 zero_page_world
        "''/tmp/upload_e.pdf''" "PdfFile []" example_env]
  let ?r = "\<lparr>session_id = ''s0'', filename = ''e.pdf'', storage_path = ''/app/storage/s0_e.pdf'',
               created_at = 5, last_modified = 5\<rparr>"
  have 1: "fitz_open ''/app/storage/s0_e.pdf'' zero_page_world = Some []"
    by (simp add: zero_page_world_def fitz_open_def example_fitz_def)
  have 2: "files zero_page_world ''/tmp/upload_e.pdf'' = Some (PdfFile []) \<and>
     fitz_parse zero_page_world (path_join (STORAGE_DIR example_env)
        (str_uuid (uuid4 example_env) @ ''_'' @ sanitize_filename ''e.pdf'')) (PdfFile []) = Some [] \<and>
     ''/tmp/upload_e.pdf'' \<noteq> path_join (STORAGE_DIR example_env)
        (str_uuid (uuid4 example_env) @ ''_'' @ sanitize_filename ''e.pdf'') \<and>
     write_outcome example_env (path_join (STORAGE_DIR example_env)
        (str_uuid (uuid4 example_env) @ ''_'' @ sanitize_filename ''e.pdf'')) = Written"
    by (simp add: zero_page_world_def example_env_def path_join_def example_fitz_def
        sanitize_filename_def os_path_basename_def)
  have 3: "sessions zero_page_world ''s0'' = None \<and> session_store_get ''s0'' zero_page_world = Some ?r \<and>
      fitz_open (storage_path ?r) zero_page_world = Some []"
    by (simp add: zero_page_world_def session_store_get_def fitz_open_def example_fitz_def)
  from t 1 have a: "\<exists>s w'. build_session_data ''s0'' ''e.pdf'' ''/app/storage/s0_e.pdf'' 5 5 zero_page_world = (Inr s, w') \<and>
      page_count s = 0 \<and> editor s = None \<and> page_manipulator s = None \<and> metadata_editor s = None"
    by blast
  from t 2 have b: "\<exists>s w'. create_session example_env ''/tmp/upload_e.pdf'' ''e.pdf'' zero_page_world =
        (Inr (str_uuid (uuid4 example_env)), w') \<and>
      sessions w' (str_uuid (uuid4 example_env)) = Some s \<and>
      page_count s = 0 \<and> editor s = None \<and> page_manipulator s = None \<and> metadata_editor s = None"
    by blast
  from t 3 have c: "\<exists>s w'. get_session ''s0'' zero_page_world = (Inr s, w') \<and> sessions w' ''s0'' = Some s \<and>
      page_count s = 0 \<and> editor s = None \<and> page_manipulator s = None \<and> metadata_editor s = None"
    by blast
  from a b c show ?thesis by (simp add: str_uuid_example)
qed

subsection \<open>C4: updating the time stamp of a row\<close>

lemma find_after_update:
  "find (\<lambda>r. session_id r = k)
      (map (\<lambda>r. if session_id r = sid then r\<lparr>last_modified := ts\<rparr> else r) xs) =
   map_option (\<lambda>r. if session_id r = sid then r\<lparr>last_modified := ts\<rparr> else r)
      (find (\<lambda>r. session_id r = k) xs)"
  by (induction xs) auto

lemma map_update_absent:
  "sid \<notin> session_id ` set xs \<Longrightarrow>
   map (\<lambda>r. if session_id r = sid then r\<lparr>last_modified := ts\<rparr> else r) xs = xs"
  by (induction xs) auto

text \<open>
  \<^verbatim>\<open>update_last_modified\<close> runs an SQL \<^verbatim>\<open>UPDATE\<close> and does not look at the number of rows
  it changed. In the world \<open>cold_world\<close> the table has no row for the id \<open>nobody\<close>; the call
  returns normally and the table is as before, so the call does not fail for an absent id.
\<close>

theorem update_last_modified_absent_counterexample:
  "session_store_get ''nobody'' cold_world = None \<and>
   fst (session_store_update_last_modified ''nobody'' 7 cold_world) = Inr () \<and>
   rows (snd (session_store_update_last_modified ''nobody'' 7 cold_world)) = rows cold_world"
  by (simp add: session_store_get_def session_store_update_last_modified_def cold_world_def)

text \<open>
  Claim C4, as amended. \<^verbatim>\<open>update_last_modified\<close> never raises. For an id that the table
  does not hold it leaves the table as it is. For an id that the table holds, the row of
  that id has the new \<^verbatim>\<open>last_modified\<close> and its other fields as before, and the row of every
  other id is unchanged. Nothing but the table changes.
\<close>

theorem update_last_modified_effect:
  "fst (session_store_update_last_modified sid ts w) = Inr () \<and>
   rows (snd (session_store_update_last_modified sid ts w)) =
     map (\<lambda>r. if session_id r = sid then r\<lparr>last_modified := ts\<rparr> else r) (rows w) \<and>
   (session_store_get sid w = None \<longrightarrow>
      rows (snd (session_store_update_last_modified sid ts w)) = rows w) \<and>
   (\<forall>r. session_store_get sid w = Some r \<longrightarrow>
      session_store_get sid (snd (session_store_update_last_modified sid ts w)) =
        Some \<lparr>session_id = session_id r, filename = filename r, storage_path = storage_path r,
              created_at = created_at r, last_modified = ts\<rparr>) \<and>
   (\<forall>k. k \<noteq> sid \<longrightarrow>
      session_store_get k (snd (session_store_update_last_modified sid ts w)) =
        session_store_get k w) \<and>
   files (snd (session_store_update_last_modified sid ts w)) = files w \<and>
   sessions (snd (session_store_update_last_modified sid ts w)) = sessions w \<and>
   documents (snd (session_store_update_last_modified sid ts w)) = documents w"
proof (intro conjI allI impI)
  show "session_store_get sid w = None \<Longrightarrow>
      rows (snd (session_store_update_last_modified sid ts w)) = rows w"
    by (simp add: session_store_update_last_modified_def session_store_get_None map_update_absent)
next
  fix r assume "session_store_get sid w = Some r"
  then show "session_store_get sid (snd (session_store_update_last_modified sid ts w)) =
        Some \<lparr>session_id = session_id r, filename = filename r, storage_path = storage_path r,
              created_at = created_at r, last_modified = ts\<rparr>"
    using session_store_get_Some [of sid w r]
    by (simp add: session_store_update_last_modified_def session_store_get_def find_after_update)
next
  fix k assume "k \<noteq> sid"
  show "session_store_get k (snd (session_store_update_last_modified sid ts w)) =
        session_store_get k w"
  proof (cases "session_store_get k w")
    case None
    then show ?thesis
      by (simp add: session_store_update_last_modified_def session_store_get_def find_after_update)
  next
    case (Some r)
    with session_store_get_Some [of k w r] \<open>k \<noteq> sid\<close> show ?thesis
      by (simp add: session_store_update_last_modified_def session_store_get_def find_after_update)
  qed
qed (simp_all add: session_store_update_last_modified_def)

theorem update_last_modified_effect_witness:
  "session_store_get ''s1'' (snd (session_store_update_last_modified ''s1'' 7 cold_world)) =
     Some \<lparr>session_id = ''s1'', filename = ''a.pdf'', storage_path = ''/app/storage/s1_a.pdf'',
           created_at = 0, last_modified = 7\<rparr> \<and>
   rows (snd (session_store_update_last_modified ''nobody'' 7 cold_world)) = rows cold_world \<and>
   session_store_get ''s1'' (snd (session_store_update_last_modified ''nobody'' 7 cold_world)) =
     session_store_get ''s1'' cold_world"
proof -
  let ?r = "\<lparr>session_id = ''s1'', filename = ''a.pdf'', storage_path = ''/app/storage/s1_a.pdf'',
               created_at = 0, last_modified = 0\<rparr>"
  note t1 = update_last_modified_effect [of "''s1''" 7 cold_world]
  note t2 = update_last_modified_effect [of "''nobody''" 7 cold_world]
  have 1: "session_store_get ''s1'' cold_world = Some ?r"
    by (simp add: session_store_get_def cold_world_def)
  have 2: "session_store_get ''nobody'' cold_world = None"
    by (simp add: session_store_get_def cold_world_def)
  have 3: "''s1'' \<noteq> ''nobody''" by simp
  note a = t1 [THEN conjunct2, THEN conjunct2, THEN conjunct2, THEN conjunct1, rule_format, OF 1]
  note b = t2 [THEN conjunct2, THEN conjunct2, THEN conjunct1, rule_format, OF 2]
  note c = t2 [THEN conjunct2, THEN conjunct2, THEN conjunct2, THEN conjunct2, THEN conjunct1,
      rule_format, OF 3]
  from a have a': "session_store_get ''s1'' (snd (session_store_update_last_modified ''s1'' 7 cold_world)) =
     Some \<lparr>session_id = ''s1'', filename = ''a.pdf'', storage_path = ''/app/storage/s1_a.pdf'',
           created_at = 0, last_modified = 7\<rparr>"
    by simp
  from a' b c show ?thesis by (intro conjI)
qed

subsection \<open>C1: deleting a session\<close>

text \<open>
  Claim C1, at a cold session. \<^verbatim>\<open>delete_session\<close> removes the content file only inside the
  branch \<^verbatim>\<open>if session_id in sessions\<close>. In \<open>cold_world\<close> the session \<open>s1\<close> has a row and
  a content file but no cache entry: the call returns normally and deletes the row, and
  the content file is still there.
\<close>

theorem delete_cold_session_leaves_file:
  "sessions cold_world ''s1'' = None \<and>
   session_store_get ''s1'' cold_world =
     Some \<lparr>session_id = ''s1'', filename = ''a.pdf'', storage_path = ''/app/storage/s1_a.pdf'',
           created_at = 0, last_modified = 0\<rparr> \<and>
   fst (delete_session ''s1'' cold_world) = Inr () \<and>
   session_store_get ''s1'' (snd (delete_session ''s1'' cold_world)) = None \<and>
   files (snd (delete_session ''s1'' cold_world)) ''/app/storage/s1_a.pdf'' =
     Some (PdfFile [''page 1''])"
  by (simp add: delete_session_def session_store_delete_def session_store_get_def cold_world_def)

text \<open>
  What \<^verbatim>\<open>delete_session\<close> does do: it never raises; the row and the cache entry of the id
  are gone afterwards; for a warm session the content file is removed, and the document
  of its manager is closed when it has pages; a second call changes neither table, files
  nor cache. A warm document without pages is false in \<^verbatim>\<open>if self.document\<close>, so
  \<^verbatim>\<open>close_document\<close> leaves it open.
\<close>

lemma delete_session_never_raises: "fst (delete_session sid w) = Inr ()"
  by (simp add: delete_session_def session_store_delete_def os_remove_def os_path_exists_def
      Let_def split: option.splits)

lemma delete_session_warm:
  assumes warm: "sessions w sid = Some s" and path: "sd_storage_path s \<noteq> []"
  shows "sessions (snd (delete_session sid w)) sid = None \<and>
     files (snd (delete_session sid w)) (sd_storage_path s) = None \<and>
     session_store_get sid (snd (delete_session sid w)) = None \<and>
     (documents w (document_manager s) \<noteq> Some [] \<longrightarrow>
        documents (snd (delete_session sid w)) (document_manager s) = None) \<and>
     (documents w (document_manager s) = Some [] \<longrightarrow>
        documents (snd (delete_session sid w)) (document_manager s) = Some [])"
  using assms
  by (simp add: delete_session_def session_store_delete_def os_remove_def os_path_exists_def
      close_document_def Let_def session_store_get_def find_None_iff split: option.splits)

lemma delete_session_row_gone:
  "session_store_get sid (snd (delete_session sid w)) = None \<and>
   sessions (snd (delete_session sid w)) sid = None"
  by (simp add: delete_session_def session_store_delete_def os_remove_def os_path_exists_def
      close_document_def Let_def session_store_get_def find_None_iff split: option.splits)

lemma delete_session_twice:
  "fst (delete_session sid (snd (delete_session sid w))) = Inr () \<and>
   rows (snd (delete_session sid (snd (delete_session sid w)))) = rows (snd (delete_session sid w)) \<and>
   files (snd (delete_session sid (snd (delete_session sid w)))) = files (snd (delete_session sid w)) \<and>
   sessions (snd (delete_session sid (snd (delete_session sid w)))) =
     sessions (snd (delete_session sid w))"
proof -
  let ?w1 = "snd (delete_session sid w)"
  have c: "sessions ?w1 sid = None" using delete_session_row_gone by simp
  have r: "filter (\<lambda>r. session_id r \<noteq> sid) (rows ?w1) = rows ?w1"
    using delete_session_row_gone [of sid w]
    by (simp add: session_store_get_def find_None_iff filter_id_conv)
  show ?thesis
    using c r by (simp add: delete_session_def [of sid ?w1] session_store_delete_def)
qed

subsection \<open>C6: cleaning up in \<^verbatim>\<open>create_session\<close>\<close>

text \<open>
  Claim C6, at a copy that fails. \<^verbatim>\<open>shutil.copy\<close> stands before the \<^verbatim>\<open>try\<close> statement, so
  the \<^verbatim>\<open>finally\<close> block does not run when the copy raises. With an environment in which
  the write of the copy fails, \<^verbatim>\<open>create_session\<close> raises \<^verbatim>\<open>OSError\<close> and the caller's
  temporary file is still there.
\<close>

theorem create_session_copy_failure_keeps_upload:
  "fst (create_session failing_write_env ''/tmp/upload_a.pdf'' ''a.pdf'' upload_world) = Inl OSError \<and>
   files (snd (create_session failing_write_env ''/tmp/upload_a.pdf'' ''a.pdf'' upload_world))
     ''/tmp/upload_a.pdf'' = Some (PdfFile [''page 1'', ''page 2'', ''page 3''])"
proof -
  have f: "files upload_world ''/tmp/upload_a.pdf'' = Some (PdfFile [''page 1'', ''page 2'', ''page 3''])"
    by (simp add: upload_world_def)
  have ne: "''/tmp/upload_a.pdf'' \<noteq> path_join (STORAGE_DIR failing_write_env)
      (str_uuid (uuid4 failing_write_env) @ ''_'' @ sanitize_filename ''a.pdf'')"
    by (simp add: path_join_def failing_write_env_def)
  have wr: "write_outcome failing_write_env (path_join (STORAGE_DIR failing_write_env)
      (str_uuid (uuid4 failing_write_env) @ ''_'' @ sanitize_filename ''a.pdf'')) = WriteFailed None"
    by (simp add: failing_write_env_def)
  show ?thesis
    unfolding create_session_copy_failed [OF refl refl f ne wr]
    by (simp add: f)
qed

text \<open>
  What \<^verbatim>\<open>create_session\<close> does do once the copy has gone through: the caller's file is
  removed on success and on failure, and after a failure no file is at the storage path
  and neither the table nor the cache has changed.
\<close>

lemma create_session_after_copy:
  assumes sid: "sid = str_uuid (uuid4 e)"
    and spath: "spath = path_join (STORAGE_DIR e) (sid @ ''_'' @ sanitize_filename fname)"
    and copy: "shutil_copy e file_path spath w = (Inr u, w1)"
  shows "files (snd (create_session e file_path fname w)) file_path = None \<and>
     (\<forall>err. fst (create_session e file_path fname w) = Inl err \<longrightarrow>
        files (snd (create_session e file_path fname w)) spath = None \<and>
        rows (snd (create_session e file_path fname w)) = rows w \<and>
        sessions (snd (create_session e file_path fname w)) = sessions w)"
proof -
  from shutil_copy_Inr [OF copy] obtain d where
    h: "files w file_path = Some d" "file_path \<noteq> spath" "write_outcome e spath = Written"
    by blast
  show ?thesis
  proof (cases "fitz_parse w spath d")
    case (Some pages)
    from create_session_ok [OF sid spath h this] show ?thesis by simp
  next
    case None
    from create_session_load_failed [OF sid spath h this] show ?thesis by simp
  qed
qed

subsection \<open>C2: reaping stale sessions\<close>

text \<open>The operations of the store keep the primary key: one row per session id.\<close>

lemma session_store_save_distinct:
  "distinct (map session_id (rows w)) \<Longrightarrow>
   distinct (map session_id (rows (snd (session_store_save record w))))"
  by (auto simp: session_store_save_def distinct_map_filter)

lemma session_store_delete_distinct:
  "distinct (map session_id (rows w)) \<Longrightarrow>
   distinct (map session_id (rows (snd (session_store_delete sid w))))"
  by (simp add: session_store_delete_def distinct_map_filter)

lemma session_id_after_update:
  "map session_id (map (\<lambda>r. if session_id r = sid then r\<lparr>last_modified := ts\<rparr> else r) xs) =
   map session_id xs"
  by (induction xs) auto

lemma session_store_update_distinct:
  assumes "distinct (map session_id (rows w))"
  shows "distinct (map session_id (rows (snd (session_store_update_last_modified sid ts w))))"
proof -
  have "rows (snd (session_store_update_last_modified sid ts w)) =
      map (\<lambda>r. if session_id r = sid then r\<lparr>last_modified := ts\<rparr> else r) (rows w)"
    by (simp add: session_store_update_last_modified_def)
  then have "map session_id (rows (snd (session_store_update_last_modified sid ts w))) =
      map session_id (rows w)"
    by (simp only: session_id_after_update)
  with assms show ?thesis by simp
qed





subsection \<open>C3: persisting the document of a warm session\<close>

lemma temp_path_differs: "spath @ ''.tmp'' \<noteq> spath"
  by simp

lemma save_pdf_failed:
  assumes "save_pdf e h p w = (Inl err, w1)"
  shows "(files w1 = files w \<or> (\<exists>junk. files w1 = (files w)(p \<mapsto> junk))) \<and>
     rows w1 = rows w \<and> sessions w1 = sessions w \<and> documents w1 = documents w \<and>
     next_handle w1 = next_handle w \<and> trace w1 = trace w"
  using assms
  by (auto simp: save_pdf_def write_file_def split: option.splits write_outcome.splits if_splits)

lemma save_pdf_ok:
  assumes "save_pdf e h p w = (Inr u, w1)"
  shows "\<exists>pages. documents w h = Some pages \<and> pages \<noteq> [] \<and> write_outcome e p = Written \<and>
     w1 = w\<lparr>files := (files w)(p \<mapsto> PdfFile pages), trace := trace w @ [DocSaved h p]\<rparr>"
  using assms
  by (auto simp: save_pdf_def write_file_def split: option.splits write_outcome.splits if_splits)

lemma persist_save_failed:
  assumes warm: "sessions w sid = Some s"
    and sv: "save_pdf e (document_manager s) (sd_storage_path s @ ''.tmp'') w = (Inl err, w1)"
  shows "\<exists>w'. persist_session_document e sid w = (Inl err, w') \<and>
     files w' = (files w)(sd_storage_path s @ ''.tmp'' := None) \<and>
     sessions w' = sessions w \<and> rows w' = rows w \<and> documents w' = documents w \<and>
     (trace w' = trace w \<or> trace w' = trace w @ [FileRemoved (sd_storage_path s @ ''.tmp'')])"
proof -
  let ?tmp = "sd_storage_path s @ ''.tmp''"
  from save_pdf_failed [OF sv] have
    f: "files w1 = files w \<or> (\<exists>junk. files w1 = (files w)(?tmp \<mapsto> junk))" and
    o: "rows w1 = rows w" "sessions w1 = sessions w" "documents w1 = documents w" "trace w1 = trace w"
    by simp_all
  have p: "persist_session_document e sid w =
      (case remove_if_exists ?tmp w1 of
         (Inl err2, w4) \<Rightarrow> (Inl err2, w4)
       | (Inr u, w4) \<Rightarrow> (Inl err, w4))"
    using warm sv by (simp add: persist_session_document_def get_session_cached Let_def)
  show ?thesis
  proof (cases "files w1 ?tmp")
    case None
    then have "remove_if_exists ?tmp w1 = (Inr (), w1)"
      by (simp add: remove_if_exists_def os_path_exists_def)
    with p have "persist_session_document e sid w = (Inl err, w1)" by simp
    moreover from f None have "files w1 = (files w)(?tmp := None)" by auto
    ultimately show ?thesis using o by simp
  next
    case (Some d)
    then have "remove_if_exists ?tmp w1 =
        (Inr (), w1\<lparr>files := (files w1)(?tmp := None), trace := trace w1 @ [FileRemoved ?tmp]\<rparr>)"
      by (simp add: remove_if_exists_def os_path_exists_def os_remove_def)
    with p have "persist_session_document e sid w =
        (Inl err, w1\<lparr>files := (files w1)(?tmp := None), trace := trace w1 @ [FileRemoved ?tmp]\<rparr>)"
      by simp
    moreover from f have "(files w1)(?tmp := None) = (files w)(?tmp := None)" by auto
    ultimately show ?thesis using o by simp
  qed
qed

lemma persist_save_ok:
  assumes warm: "sessions w sid = Some s"
    and doc: "documents w (document_manager s) = Some pages"
    and ne: "pages \<noteq> []"
    and wr: "write_outcome e (sd_storage_path s @ ''.tmp'') = Written"
  shows "persist_session_document e sid w =
    (Inr (s\<lparr>sd_last_modified := now e, page_count := length pages\<rparr>),
     w\<lparr>files := ((files w)(sd_storage_path s @ ''.tmp'' := None))(sd_storage_path s \<mapsto> PdfFile pages),
        rows := map (\<lambda>r. if session_id r = sid then r\<lparr>last_modified := now e\<rparr> else r) (rows w),
        sessions := (sessions w)(sid \<mapsto> s\<lparr>sd_last_modified := now e, page_count := length pages\<rparr>),
        trace := trace w @ [DocSaved (document_manager s) (sd_storage_path s @ ''.tmp''),
                            FileReplaced (sd_storage_path s @ ''.tmp'') (sd_storage_path s),
                            RowUpdated sid (now e)]\<rparr>)"
  using warm doc ne wr
  by (simp add: persist_session_document_def get_session_cached Let_def save_pdf_def
      write_file_def os_replace_def get_document_def session_store_update_last_modified_def)

lemma warm_world_entry:
  "sessions warm_world ''s2'' = Some
        \<lparr>sd_id = ''s2'', sd_filename = ''b.pdf'', sd_storage_path = ''/app/storage/s2_b.pdf'',
         document_manager = 0, sd_created_at = 0, sd_last_modified = 0, page_count = 1,
         editor = Some (Editor 0), page_manipulator = Some (PageManipulator 0),
         metadata_editor = Some (MetadataEditor 0)\<rparr>"
  by (simp add: warm_world_def)

text \<open>
  Claim C3. Let the session be warm, and let the temporary path be its storage path
  followed by \<^verbatim>\<open>.tmp\<close>. When \<^verbatim>\<open>save_pdf\<close> to the temporary path raises,
  \<^verbatim>\<open>persist_session_document\<close> raises the same error; afterwards no file is at the temporary
  path, every other file and in particular the file at the storage path is as before, and
  the cache (so the entry's \<^verbatim>\<open>last_modified\<close> and \<^verbatim>\<open>page_count\<close>), the table and the open
  documents are unchanged; the only effect is at most the removal of the temporary file.
  When \<^verbatim>\<open>save_pdf\<close> succeeds, the call returns the entry with the new \<^verbatim>\<open>last_modified\<close> and
  page count, the file at the storage path is the saved document, no file is left at the
  temporary path, and the effects are, in this order: the save to the temporary path, the
  replacement of the storage path by the temporary file, the update of the row.
\<close>

theorem persist_session_document_atomic:
  assumes warm: "sessions w sid = Some s"
  shows
    "(\<forall>err. fst (save_pdf e (document_manager s) (sd_storage_path s @ ''.tmp'') w) = Inl err \<longrightarrow>
        fst (persist_session_document e sid w) = Inl err \<and>
        files (snd (persist_session_document e sid w)) (sd_storage_path s @ ''.tmp'') = None \<and>
        files (snd (persist_session_document e sid w)) (sd_storage_path s) =
          files w (sd_storage_path s) \<and>
        (\<forall>p. p \<noteq> sd_storage_path s @ ''.tmp'' \<longrightarrow>
           files (snd (persist_session_document e sid w)) p = files w p) \<and>
        sessions (snd (persist_session_document e sid w)) = sessions w \<and>
        rows (snd (persist_session_document e sid w)) = rows w \<and>
        documents (snd (persist_session_document e sid w)) = documents w \<and>
        (trace (snd (persist_session_document e sid w)) = trace w \<or>
         trace (snd (persist_session_document e sid w)) =
           trace w @ [FileRemoved (sd_storage_path s @ ''.tmp'')])) \<and>
     (fst (save_pdf e (document_manager s) (sd_storage_path s @ ''.tmp'') w) = Inr () \<longrightarrow>
        (\<exists>pages. documents w (document_manager s) = Some pages \<and>
           fst (persist_session_document e sid w) =
             Inr (s\<lparr>sd_last_modified := now e, page_count := length pages\<rparr>) \<and>
           files (snd (persist_session_document e sid w)) (sd_storage_path s) =
             Some (PdfFile pages) \<and>
           files (snd (persist_session_document e sid w)) (sd_storage_path s @ ''.tmp'') = None \<and>
           (\<forall>p. p \<noteq> sd_storage_path s @ ''.tmp'' \<and> p \<noteq> sd_storage_path s \<longrightarrow>
              files (snd (persist_session_document e sid w)) p = files w p) \<and>
           sessions (snd (persist_session_document e sid w)) =
             (sessions w)(sid \<mapsto> s\<lparr>sd_last_modified := now e, page_count := length pages\<rparr>) \<and>
           rows (snd (persist_session_document e sid w)) =
             map (\<lambda>r. if session_id r = sid then r\<lparr>last_modified := now e\<rparr> else r) (rows w) \<and>
           documents (snd (persist_session_document e sid w)) = documents w \<and>
           trace (snd (persist_session_document e sid w)) =
             trace w @ [DocSaved (document_manager s) (sd_storage_path s @ ''.tmp''),
                        FileReplaced (sd_storage_path s @ ''.tmp'') (sd_storage_path s),
                        RowUpdated sid (now e)]))"
proof (intro conjI allI impI)
  fix err
  assume a: "fst (save_pdf e (document_manager s) (sd_storage_path s @ ''.tmp'') w) = Inl err"
  let ?tmp = "sd_storage_path s @ ''.tmp''"
  let ?w' = "snd (persist_session_document e sid w)"
  from a obtain w1 where "save_pdf e (document_manager s) ?tmp w = (Inl err, w1)"
    by (cases "save_pdf e (document_manager s) ?tmp w") simp
  from persist_save_failed [OF warm this] obtain w' where
    r: "persist_session_document e sid w = (Inl err, w')" and
    f: "files w' = (files w)(?tmp := None)" and
    o: "sessions w' = sessions w" "rows w' = rows w" "documents w' = documents w" and
    t: "trace w' = trace w \<or> trace w' = trace w @ [FileRemoved ?tmp]"
    by blast
  from r have w': "?w' = w'" by simp
  show "fst (persist_session_document e sid w) = Inl err" using r by simp
  show "files ?w' ?tmp = None" unfolding w' f by simp
  show "files ?w' (sd_storage_path s) = files w (sd_storage_path s)" unfolding w' f by simp
  show "\<And>p. p \<noteq> ?tmp \<Longrightarrow> files ?w' p = files w p" unfolding w' f by simp
  show "sessions ?w' = sessions w" unfolding w' by (rule o)
  show "rows ?w' = rows w" unfolding w' by (rule o)
  show "documents ?w' = documents w" unfolding w' by (rule o)
  show "trace ?w' = trace w \<or> trace ?w' = trace w @ [FileRemoved ?tmp]" unfolding w' by (rule t)
next
  assume a: "fst (save_pdf e (document_manager s) (sd_storage_path s @ ''.tmp'') w) = Inr ()"
  let ?tmp = "sd_storage_path s @ ''.tmp''"
  from a obtain w1 where "save_pdf e (document_manager s) ?tmp w = (Inr (), w1)"
    by (cases "save_pdf e (document_manager s) ?tmp w") simp
  from save_pdf_ok [OF this] obtain pages where
    doc: "documents w (document_manager s) = Some pages" and ne: "pages \<noteq> []" and
    wr: "write_outcome e ?tmp = Written"
    by blast
  note ok = persist_save_ok [OF warm doc ne wr]
  show "\<exists>pages. documents w (document_manager s) = Some pages \<and>
           fst (persist_session_document e sid w) =
             Inr (s\<lparr>sd_last_modified := now e, page_count := length pages\<rparr>) \<and>
           files (snd (persist_session_document e sid w)) (sd_storage_path s) =
             Some (PdfFile pages) \<and>
           files (snd (persist_session_document e sid w)) (sd_storage_path s @ ''.tmp'') = None \<and>
           (\<forall>p. p \<noteq> sd_storage_path s @ ''.tmp'' \<and> p \<noteq> sd_storage_path s \<longrightarrow>
              files (snd (persist_session_document e sid w)) p = files w p) \<and>
           sessions (snd (persist_session_document e sid w)) =
             (sessions w)(sid \<mapsto> s\<lparr>sd_last_modified := now e, page_count := length pages\<rparr>) \<and>
           rows (snd (persist_session_document e sid w)) =
             map (\<lambda>r. if session_id r = sid then r\<lparr>last_modified := now e\<rparr> else r) (rows w) \<and>
           documents (snd (persist_session_document e sid w)) = documents w \<and>
           trace (snd (persist_session_document e sid w)) =
             trace w @ [DocSaved (document_manager s) (sd_storage_path s @ ''.tmp''),
                        FileReplaced (sd_storage_path s @ ''.tmp'') (sd_storage_path s),
                        RowUpdated sid (now e)]"
    unfolding ok using doc by simp
qed

theorem persist_session_document_atomic_witness:
  "fst (persist_session_document partial_write_env ''s2'' warm_world) = Inl PDFSaveError \<and>
   files (snd (persist_session_document partial_write_env ''s2'' warm_world))
     ''/app/storage/s2_b.pdf.tmp'' = None \<and>
   files (snd (persist_session_document partial_write_env ''s2'' warm_world))
     ''/app/storage/s2_b.pdf'' = Some (PdfFile [''page 1'']) \<and>
   rows (snd (persist_session_document partial_write_env ''s2'' warm_world)) = rows warm_world \<and>
   files (snd (persist_session_document example_env ''s2'' warm_world))
     ''/app/storage/s2_b.pdf'' = Some (PdfFile [''page 1'', ''page 2'']) \<and>
   files (snd (persist_session_document example_env ''s2'' warm_world))
     ''/app/storage/s2_b.pdf.tmp'' = None \<and>
   map last_modified (rows (snd (persist_session_document example_env ''s2'' warm_world))) =
     [63929347200000000] \<and>
   trace (snd (persist_session_document example_env ''s2'' warm_world)) =
     [DocSaved 0 ''/app/storage/s2_b.pdf.tmp'',
      FileReplaced ''/app/storage/s2_b.pdf.tmp'' ''/app/storage/s2_b.pdf'',
      RowUpdated ''s2'' 63929347200000000]"
proof -
  let ?s = "\<lparr>sd_id = ''s2'', sd_filename = ''b.pdf'', sd_storage_path = ''/app/storage/s2_b.pdf'',
         document_manager = 0, sd_created_at = 0, sd_last_modified = 0, page_count = 1,
         editor = Some (Editor 0), page_manipulator = Some (PageManipulator 0),
         metadata_editor = Some (MetadataEditor 0)\<rparr>"
  note f = persist_session_document_atomic [OF warm_world_entry, of partial_write_env, THEN conjunct1,
      rule_format, of PDFSaveError]
  note g = persist_session_document_atomic [OF warm_world_entry, of example_env, THEN conjunct2,
      rule_format]
  have sf: "fst (save_pdf partial_write_env (document_manager ?s) (sd_storage_path ?s @ ''.tmp'')
      warm_world) = Inl PDFSaveError"
    by (simp add: save_pdf_def write_file_def warm_world_def partial_write_env_def)
  have sg: "fst (save_pdf example_env (document_manager ?s) (sd_storage_path ?s @ ''.tmp'')
      warm_world) = Inr ()"
    by (simp add: save_pdf_def write_file_def warm_world_def example_env_def)
  from f [OF sf] have 1:
    "fst (persist_session_document partial_write_env ''s2'' warm_world) = Inl PDFSaveError"
    "files (snd (persist_session_document partial_write_env ''s2'' warm_world))
       ''/app/storage/s2_b.pdf.tmp'' = None"
    "files (snd (persist_session_document partial_write_env ''s2'' warm_world))
       ''/app/storage/s2_b.pdf'' = Some (PdfFile [''page 1''])"
    "rows (snd (persist_session_document partial_write_env ''s2'' warm_world)) = rows warm_world"
    by (simp_all add: warm_world_def)
  from g [OF sg] obtain pages where
    d: "documents warm_world (document_manager ?s) = Some pages" and
    a: "files (snd (persist_session_document example_env ''s2'' warm_world)) (sd_storage_path ?s) =
          Some (PdfFile pages)" and
    b: "files (snd (persist_session_document example_env ''s2'' warm_world))
          (sd_storage_path ?s @ ''.tmp'') = None" and
    c: "rows (snd (persist_session_document example_env ''s2'' warm_world)) =
          map (\<lambda>r. if session_id r = ''s2'' then r\<lparr>last_modified := now example_env\<rparr> else r)
            (rows warm_world)" and
    t: "trace (snd (persist_session_document example_env ''s2'' warm_world)) =
          trace warm_world @ [DocSaved (document_manager ?s) (sd_storage_path ?s @ ''.tmp''),
                        FileReplaced (sd_storage_path ?s @ ''.tmp'') (sd_storage_path ?s),
                        RowUpdated ''s2'' (now example_env)]"
    by (elim exE conjE)
  from d have pages: "pages = [''page 1'', ''page 2'']" by (simp add: warm_world_def)
  from a pages have 2: "files (snd (persist_session_document example_env ''s2'' warm_world))
     ''/app/storage/s2_b.pdf'' = Some (PdfFile [''page 1'', ''page 2''])" by simp
  from b have 3: "files (snd (persist_session_document example_env ''s2'' warm_world))
     ''/app/storage/s2_b.pdf.tmp'' = None" by simp
  have 4: "map last_modified (rows (snd (persist_session_document example_env ''s2'' warm_world))) =
     [63929347200000000]"
    unfolding c by (simp add: warm_world_def example_env_def)
  have 5: "trace (snd (persist_session_document example_env ''s2'' warm_world)) =
     [DocSaved 0 ''/app/storage/s2_b.pdf.tmp'',
      FileReplaced ''/app/storage/s2_b.pdf.tmp'' ''/app/storage/s2_b.pdf'',
      RowUpdated ''s2'' 63929347200000000]"
    unfolding t by (simp add: warm_world_def example_env_def)
  from 1 2 3 4 5 show ?thesis by (intro conjI)
qed

end
